theory Spec2Isabelle
  imports Complex_Main "HOL-Library.Word" "HOL-Library.Product_Lexorder"
begin

section \<open>Data model (trade/models.py)\<close>

text \<open>
  A \<open>DecimalField\<close> holds an exact decimal number; it is modelled by its exact rational
  value. The 28-digit precision of Python's decimal context in a quotient is not modelled.
\<close>

type_synonym decimal = rat

text \<open>
  \<open>HSCode\<close>: the catalog entry. \<open>code\<close> is declared \<open>unique=True\<close>; the three prefix
  fields are character fields whose default is the empty string.
\<close>

record HSCode =
  code :: string
  hs_description :: string
  hs_chapter :: string
  hs_heading :: string
  hs_subheading :: string

text \<open>
  \<open>TradeData\<close>: one trade record. The foreign key \<open>hs_code\<close> is not nullable; the record
  carries the catalog entry it refers to, as \<open>select_related\<close> loads it (catalog entries are
  never updated by this code). \<open>country\<close> is read by the queries both against NULL and
  against the empty string, so it is an option here. The timestamp \<open>created_at\<close> is left out.
\<close>

record TradeData =
  year :: int
  month :: int
  trade_type :: string
  hs_code :: HSCode
  country :: "string option"
  quantity :: decimal
  unit_label :: "string option"
  value_usd :: decimal

text \<open>The two tables, each in insertion (primary key) order.\<close>

record store =
  hs_table :: "HSCode list"
  trade_table :: "TradeData list"

section \<open>Values and errors of the host language\<close>

text \<open>
  A cell of a pandas data frame: a missing value, an integer, a finite float (by its exact
  rational value) or a text.
\<close>

datatype cell = CNaN | CInt int | CFloat rat | CStr string

text \<open>
  A data frame: its column names and its rows. A row has a cell for each of the eight
  columns that the upload reads; the cells of a column that the frame does not have are never
  read, since \<open>post\<close> refuses such a frame first. Other columns are never read at all.
\<close>

record row =
  c_year :: cell
  c_month :: cell
  c_trade_type :: cell
  c_hs_code :: cell
  c_country :: cell
  c_quantity :: cell
  c_description :: cell
  c_value_usd :: cell

record dataframe =
  columns :: "string list"
  rows :: "row list"

text \<open>Every place where the source can raise has its own error value.\<close>

datatype error =
    AttributeError
  | TypeError
  | ValueError
  | KeyError
  | HSCodeInsertError
  | TradeInsertError
  | UnicodeDecodeError
  | ParserError string

text \<open>
  The key of a group of a \<open>values(...).annotate(...)\<close> query: a trade direction, a country
  or a commodity (code and description).
\<close>

datatype group_key = ByDirection string | ByCountry "string option" | ByCommodity string string

text \<open>
  The behaviour of CPython, pandas, Django and the database engine that the repository's code
  relies on but does not define is taken as a parameter:
  \<^item> \<open>py_int\<close>: the builtin \<open>int\<close> on a text (\<open>None\<close>: it raises ValueError);
  \<^item> \<open>py_str\<close>: the builtin \<open>str\<close> on a cell that is not a text;
  \<^item> \<open>str_upper\<close>, \<open>str_lower\<close>, \<open>str_strip\<close>: \<open>str.upper\<close>, \<open>str.lower\<close> and
    \<open>str.strip\<close>;
  \<^item> \<open>to_decimal\<close>: what a \<open>DecimalField(max_digits=18, decimal_places=2)\<close> stores for a
    cell (\<open>None\<close>: the value is refused);
  \<^item> \<open>hs_accepts\<close>, \<open>trade_accepts\<close>: the checks of the engine on a row other than the
    uniqueness of \<open>HSCode.code\<close> (lengths, ranges);
  \<^item> \<open>icontains\<close>: the engine's case-insensitive substring test, \<open>icontains hay needle\<close>;
  \<^item> \<open>group_before\<close>: the order in which the engine returns the groups of a grouped query
    that has no ordering of its own;
  \<^item> \<open>csv_parse\<close>, \<open>excel_parse\<close>: what \<open>pandas.read_csv\<close> makes of a decoded text (a list
    of code points) and \<open>pandas.read_excel\<close> of a workbook; \<open>Inl\<close> carries the message of
    a parser error, which is never a \<open>UnicodeDecodeError\<close>.
\<close>

record backend =
  py_int :: "string \<Rightarrow> int option"
  py_str :: "cell \<Rightarrow> string"
  str_upper :: "string \<Rightarrow> string"
  str_lower :: "string \<Rightarrow> string"
  str_strip :: "string \<Rightarrow> string"
  to_decimal :: "cell \<Rightarrow> decimal option"
  hs_accepts :: "HSCode \<Rightarrow> bool"
  trade_accepts :: "TradeData \<Rightarrow> bool"
  icontains :: "string \<Rightarrow> string \<Rightarrow> bool"
  group_before :: "group_key \<Rightarrow> group_key \<Rightarrow> bool"
  csv_parse :: "nat list \<Rightarrow> string + dataframe"
  excel_parse :: "8 word list \<Rightarrow> string + dataframe"

section \<open>Query primitives\<close>

text \<open>
  \<open>Meta.ordering = ["-year", "-month"]\<close>: the default order of a \<open>TradeData\<close> queryset.
  Rows with equal year and month are kept in insertion order (the engine leaves it open).
\<close>

definition default_order :: "TradeData list \<Rightarrow> TradeData list" where
  "default_order ts = sort_key (\<lambda>t. (- year t, - month t)) ts"

text \<open>\<open>TradeData.objects.all()\<close>.\<close>

definition objects_all :: "store \<Rightarrow> TradeData list" where
  "objects_all st = default_order (trade_table st)"

text \<open>Python's truth value of \<open>request.GET.get(name)\<close>: \<open>None\<close> and the empty text are false.\<close>

fun truthy :: "string option \<Rightarrow> bool" where
  "truthy None = False"
| "truthy (Some s) = (s \<noteq> [])"

text \<open>
  \<open>queryset.filter(field=value)\<close> on an integer field when the parameter is set: Django
  converts the text with \<open>int\<close>, and raises ValueError when that fails.
\<close>

definition filter_int ::
  "backend \<Rightarrow> (TradeData \<Rightarrow> int) \<Rightarrow> string option \<Rightarrow> TradeData list \<Rightarrow> error + TradeData list" where
  "filter_int b field v qs =
     (if truthy v then
        (case py_int b (the v) of
           None \<Rightarrow> Inl ValueError
         | Some n \<Rightarrow> Inr (filter (\<lambda>t. field t = n) qs))
      else Inr qs)"

text \<open>\<open>queryset.filter(field=value)\<close> on a text field when the parameter is set.\<close>

definition filter_str ::
  "(TradeData \<Rightarrow> string option) \<Rightarrow> string option \<Rightarrow> TradeData list \<Rightarrow> TradeData list" where
  "filter_str field v qs = (if truthy v then filter (\<lambda>t. field t = v) qs else qs)"

text \<open>\<open>Sum(...)\<close> in \<open>aggregate\<close>: NULL over no rows.\<close>

definition db_sum :: "decimal list \<Rightarrow> decimal option" where
  "db_sum vs = (if vs = [] then None else Some (sum_list vs))"

text \<open>Python's \<open>x or 0\<close> on an aggregate: \<open>None\<close> and a zero are both false.\<close>

fun or0 :: "decimal option \<Rightarrow> decimal" where
  "or0 None = 0"
| "or0 (Some v) = (if v = 0 then 0 else v)"

text \<open>The first occurrence of every value, in order.\<close>

fun drop_duplicates :: "'a list \<Rightarrow> 'a list" where
  "drop_duplicates [] = []"
| "drop_duplicates (x # xs) = x # drop_duplicates (filter (\<lambda>y. y \<noteq> x) xs)"

text \<open>
  The order in which the engine returns a list of keys: each key is put in front of the
  first key that the engine lists after it. Whatever the relation, the keys stay the same.
\<close>

fun insert_by :: "('k \<Rightarrow> 'k \<Rightarrow> bool) \<Rightarrow> 'k \<Rightarrow> 'k list \<Rightarrow> 'k list" where
  "insert_by before x [] = [x]"
| "insert_by before x (y # ys) =
     (if before x y then x # y # ys else y # insert_by before x ys)"

definition engine_order :: "('k \<Rightarrow> 'k \<Rightarrow> bool) \<Rightarrow> 'k list \<Rightarrow> 'k list" where
  "engine_order before ks = foldr (insert_by before) ks []"

text \<open>
  \<open>queryset.values(key).annotate(total_value=Sum("value_usd"))\<close>: one row per distinct key
  with the sum of its rows. The query has no ordering, so the groups come in the order of
  the engine.
\<close>

definition group_sum ::
  "('k \<Rightarrow> 'k \<Rightarrow> bool) \<Rightarrow> (TradeData \<Rightarrow> 'k) \<Rightarrow> TradeData list \<Rightarrow> ('k \<times> decimal) list" where
  "group_sum before key qs =
     map (\<lambda>k. (k, sum_list (map value_usd (filter (\<lambda>t. key t = k) qs))))
       (engine_order before (drop_duplicates (map key qs)))"

text \<open>\<open>.order_by("-total_value")[:10]\<close>; equal totals keep their order.\<close>

definition top10 :: "('k \<times> decimal) list \<Rightarrow> ('k \<times> decimal) list" where
  "top10 gs = take 10 (sort_key (\<lambda>g. - snd g) gs)"

text \<open>
  \<open>round(x, 2)\<close> on a \<open>Decimal\<close>: to the nearest multiple of 0.01, a tie to the even one.
\<close>

definition round_half_even :: "rat \<Rightarrow> int" where
  "round_half_even x =
     (let f = \<lfloor>x\<rfloor>; d = x - of_int f
      in if d < 1 / 2 then f else if 1 / 2 < d then f + 1 else if even f then f else f + 1)"

definition py_round2 :: "rat \<Rightarrow> rat" where
  "py_round2 x = of_int (round_half_even (x * 100)) / 100"

section \<open>The listing and aggregation view (trade/views.py, TradeDataListView)\<close>

text \<open>The query parameters of a request, each absent (\<open>None\<close>) or a text.\<close>

record params =
  p_year :: "string option"
  p_month :: "string option"
  p_trade_type :: "string option"
  p_country :: "string option"
  p_search :: "string option"
  p_crop :: "string option"

text \<open>\<open>TradeDataListView.get_queryset\<close>.\<close>

definition get_queryset :: "backend \<Rightarrow> params \<Rightarrow> store \<Rightarrow> error + TradeData list" where
  "get_queryset b p st =
     (case filter_int b year (p_year p) (objects_all st) of
        Inl e \<Rightarrow> Inl e
      | Inr q1 \<Rightarrow>
     (case filter_int b month (p_month p) q1 of
        Inl e \<Rightarrow> Inl e
      | Inr q2 \<Rightarrow>
     (let q3 = filter_str (\<lambda>t. Some (trade_type t)) (p_trade_type p) q2;
          q4 = filter_str country (p_country p) q3;
          q5 = (if truthy (p_search p)
                then filter (\<lambda>t. icontains b (code (hs_code t)) (the (p_search p))
                                \<or> icontains b (hs_description (hs_code t)) (the (p_search p))) q4
                else q4)
      in Inr q5)))"

text \<open>The entries of the template context that the metrics fill.\<close>

record context_data =
  total_quantity :: decimal
  total_value :: decimal
  total_records :: nat
  top_countries :: "(string option \<times> decimal) list"
  top_hs_codes :: "((string \<times> string) \<times> decimal) list"
  trade_split :: "(string \<times> decimal \<times> decimal) list"
  concentration_ratio :: decimal
  trade_balance :: decimal

text \<open>
  \<open>top_countries\<close>: the rows whose country is NULL or empty are excluded before grouping.
\<close>

definition top_countries_of :: "backend \<Rightarrow> TradeData list \<Rightarrow> (string option \<times> decimal) list" where
  "top_countries_of b qs =
     top10 (group_sum (\<lambda>k k'. group_before b (ByCountry k) (ByCountry k')) country
       (filter (\<lambda>t. country t \<noteq> Some []) (filter (\<lambda>t. country t \<noteq> None) qs)))"

definition top_hs_codes_of :: "backend \<Rightarrow> TradeData list \<Rightarrow> ((string \<times> string) \<times> decimal) list" where
  "top_hs_codes_of b qs =
     top10 (group_sum
       (\<lambda>k k'. group_before b (ByCommodity (fst k) (snd k)) (ByCommodity (fst k') (snd k')))
       (\<lambda>t. (code (hs_code t), hs_description (hs_code t))) qs)"

text \<open>
  \<open>trade_split\<close>: every group with its total and its percentage of \<open>total_trade\<close>, the sum
  of the groups' totals; the percentage is computed only when \<open>total_trade > 0\<close>.
\<close>

definition trade_split_of :: "backend \<Rightarrow> TradeData list \<Rightarrow> (string \<times> decimal \<times> decimal) list" where
  "trade_split_of b qs =
     (let split =
            group_sum (\<lambda>k k'. group_before b (ByDirection k) (ByDirection k')) trade_type qs;
          total_trade = sum_list (map (\<lambda>item. or0 (Some (snd item))) split)
      in map (\<lambda>item.
            (fst item, snd item,
             if total_trade > 0 then py_round2 ((snd item / total_trade) * 100) else 0))
          split)"

definition concentration_ratio_of :: "backend \<Rightarrow> TradeData list \<Rightarrow> decimal" where
  "concentration_ratio_of b qs =
     (let top_total = sum_list (map snd (top_hs_codes_of b qs));
          overall_total = or0 (db_sum (map value_usd qs))
      in py_round2 (if overall_total > 0 then (top_total / overall_total) * 100 else 0))"

text \<open>
  \<open>trade_balance\<close>: the source filters on the texts \<open>"Export"\<close> and \<open>"Import"\<close>, compared
  exactly as the engine compares texts.
\<close>

definition trade_balance_of :: "TradeData list \<Rightarrow> decimal" where
  "trade_balance_of qs =
     (let exports = or0 (db_sum (map value_usd (filter (\<lambda>t. trade_type t = ''Export'') qs)));
          imports = or0 (db_sum (map value_usd (filter (\<lambda>t. trade_type t = ''Import'') qs)))
      in exports - imports)"

text \<open>
  \<open>TradeDataListView.get_context_data\<close>, for the filtered queryset \<open>qs\<close>. The lists of
  distinct values for the filter form and the pagination of the parent class are left out.
\<close>

definition context_of :: "backend \<Rightarrow> TradeData list \<Rightarrow> context_data" where
  "context_of b qs =
     \<lparr> total_quantity = or0 (db_sum (map quantity qs)),
       total_value = or0 (db_sum (map value_usd qs)),
       total_records = length qs,
       top_countries = top_countries_of b qs,
       top_hs_codes = top_hs_codes_of b qs,
       trade_split = trade_split_of b qs,
       concentration_ratio = concentration_ratio_of b qs,
       trade_balance = trade_balance_of qs \<rparr>"

definition get_context_data :: "backend \<Rightarrow> params \<Rightarrow> store \<Rightarrow> error + context_data" where
  "get_context_data b p st =
     (case get_queryset b p st of
        Inl e \<Rightarrow> Inl e
      | Inr filtered_queryset \<Rightarrow> Inr (context_of b filtered_queryset))"

section \<open>The export view (trade/views.py, export_filtered_data)\<close>

text \<open>A field handed to \<open>csv.writer\<close>; quoting and number formats are the writer's.\<close>

datatype csv_field = FInt int | FDec decimal | FStr string | FNone

definition export_header :: "csv_field list" where
  "export_header =
     [FStr ''Year'', FStr ''Month'', FStr ''Country'', FStr ''HS Code'', FStr ''Description'',
      FStr ''Trade Type'', FStr ''Quantity'', FStr ''Value (USD)'']"

definition export_row :: "TradeData \<Rightarrow> csv_field list" where
  "export_row obj =
     [FInt (year obj), FInt (month obj),
      (case country obj of None \<Rightarrow> FNone | Some c \<Rightarrow> FStr c),
      FStr (code (hs_code obj)), FStr (hs_description (hs_code obj)),
      FStr (trade_type obj), FDec (quantity obj), FDec (value_usd obj)]"

text \<open>
  \<open>export_filtered_data\<close>: the parameters read are \<open>year\<close>, \<open>month\<close>, \<open>crop\<close> and
  \<open>country\<close>. The result lists the rows written, the header first.
\<close>

definition export_filtered_data :: "backend \<Rightarrow> params \<Rightarrow> store \<Rightarrow> error + csv_field list list" where
  "export_filtered_data b p st =
     (case filter_int b year (p_year p) (objects_all st) of
        Inl e \<Rightarrow> Inl e
      | Inr q1 \<Rightarrow>
     (case filter_int b month (p_month p) q1 of
        Inl e \<Rightarrow> Inl e
      | Inr q2 \<Rightarrow>
     (let q3 = filter_str (\<lambda>t. Some (hs_description (hs_code t))) (p_crop p) q2;
          q4 = filter_str country (p_country p) q3
      in Inr (export_header # map export_row q4))))"

section \<open>The upload view (trade/views.py, TradeUploadView)\<close>

subsection \<open>read_csv_safely\<close>

datatype encoding = UTF8 | Latin1 | CP1252

definition cont :: "nat \<Rightarrow> bool" where
  "cont c = (128 \<le> c \<and> c < 192)"

text \<open>
  The strict UTF-8 codec on a list of byte values: overlong forms, surrogates and code points
  above U+10FFFF are refused.
\<close>

fun utf8_decode :: "nat list \<Rightarrow> nat list option" where
  "utf8_decode [] = Some []"
| "utf8_decode (b # bs) =
     (if b < 128 then map_option (Cons b) (utf8_decode bs)
      else if 194 \<le> b \<and> b < 224 then
        (case bs of
           c1 # r \<Rightarrow>
             if cont c1 then map_option (Cons ((b - 192) * 64 + (c1 - 128))) (utf8_decode r)
             else None
         | _ \<Rightarrow> None)
      else if 224 \<le> b \<and> b < 240 then
        (case bs of
           c1 # c2 # r \<Rightarrow>
             (let cp = (b - 224) * 4096 + (c1 - 128) * 64 + (c2 - 128)
              in if cont c1 \<and> cont c2 \<and> 2048 \<le> cp \<and> \<not> (55296 \<le> cp \<and> cp < 57344)
                 then map_option (Cons cp) (utf8_decode r) else None)
         | _ \<Rightarrow> None)
      else if 240 \<le> b \<and> b < 245 then
        (case bs of
           c1 # c2 # c3 # r \<Rightarrow>
             (let cp = (b - 240) * 262144 + (c1 - 128) * 4096 + (c2 - 128) * 64 + (c3 - 128)
              in if cont c1 \<and> cont c2 \<and> cont c3 \<and> 65536 \<le> cp \<and> cp < 1114112
                 then map_option (Cons cp) (utf8_decode r) else None)
         | _ \<Rightarrow> None)
      else None)"

text \<open>The cp1252 codec of CPython: five byte values have no character.\<close>

definition cp1252_high :: "nat list" where
  "cp1252_high =
     [8364, 0, 8218, 402, 8222, 8230, 8224, 8225, 710, 8240, 352, 8249, 338, 0, 381, 0,
      0, 8216, 8217, 8220, 8221, 8226, 8211, 8212, 732, 8482, 353, 8250, 339, 0, 382, 376]"

definition cp1252_char :: "nat \<Rightarrow> nat option" where
  "cp1252_char b =
     (if 128 \<le> b \<and> b < 160 then
        (if cp1252_high ! (b - 128) = 0 then None else Some (cp1252_high ! (b - 128)))
      else Some b)"

fun cp1252_decode :: "nat list \<Rightarrow> nat list option" where
  "cp1252_decode [] = Some []"
| "cp1252_decode (b # bs) =
     (case cp1252_char b of
        None \<Rightarrow> None
      | Some c \<Rightarrow> map_option (Cons c) (cp1252_decode bs))"

text \<open>Decoding a byte stream; latin1 maps every byte to the code point of the same value.\<close>

fun decode :: "encoding \<Rightarrow> 8 word list \<Rightarrow> nat list option" where
  "decode UTF8 raw = utf8_decode (map unat raw)"
| "decode Latin1 raw = Some (map unat raw)"
| "decode CP1252 raw = cp1252_decode (map unat raw)"

text \<open>\<open>pd.read_csv(io.BytesIO(raw_data), encoding=enc)\<close>.\<close>

definition read_csv :: "backend \<Rightarrow> encoding \<Rightarrow> 8 word list \<Rightarrow> error + dataframe" where
  "read_csv b enc raw_data =
     (case decode enc raw_data of
        None \<Rightarrow> Inl UnicodeDecodeError
      | Some text \<Rightarrow>
          (case csv_parse b text of Inl m \<Rightarrow> Inl (ParserError m) | Inr df \<Rightarrow> Inr df))"

text \<open>
  \<open>read_csv_safely\<close>: each \<open>try\<close> catches \<open>UnicodeDecodeError\<close> only; any other outcome of
  an attempt is the outcome of the call.
\<close>

definition read_csv_safely :: "backend \<Rightarrow> 8 word list \<Rightarrow> error + dataframe" where
  "read_csv_safely b raw_data =
     (case read_csv b UTF8 raw_data of
        Inl UnicodeDecodeError \<Rightarrow>
          (case read_csv b Latin1 raw_data of
             Inl UnicodeDecodeError \<Rightarrow> read_csv b CP1252 raw_data
           | r \<Rightarrow> r)
      | r \<Rightarrow> r)"

subsection \<open>process_dataframe\<close>

text \<open>\<open>df.fillna("")\<close>.\<close>

fun fillna_cell :: "cell \<Rightarrow> cell" where
  "fillna_cell CNaN = CStr []"
| "fillna_cell c = c"

definition fillna :: "row \<Rightarrow> row" where
  "fillna r =
     \<lparr> c_year = fillna_cell (c_year r), c_month = fillna_cell (c_month r),
       c_trade_type = fillna_cell (c_trade_type r), c_hs_code = fillna_cell (c_hs_code r),
       c_country = fillna_cell (c_country r), c_quantity = fillna_cell (c_quantity r),
       c_description = fillna_cell (c_description r), c_value_usd = fillna_cell (c_value_usd r) \<rparr>"

text \<open>
  The text of a cell: \<open>astype(str)\<close> on a column, and what a character field stores for a
  value (Django applies \<open>str\<close> to a value that is not a text).
\<close>

fun to_text :: "backend \<Rightarrow> cell \<Rightarrow> string" where
  "to_text b (CStr s) = s"
| "to_text b c = py_str b c"

fun is_text :: "cell \<Rightarrow> bool" where
  "is_text (CStr s) = True"
| "is_text c = False"

text \<open>
  The \<open>.str\<close> accessor of a column raises AttributeError unless the column is empty or
  holds a text; where it applies, a cell that is not a text becomes a missing value.
\<close>

definition str_accessor_ok :: "cell list \<Rightarrow> bool" where
  "str_accessor_ok col = (col = [] \<or> list_ex is_text col)"

fun str_map :: "(string \<Rightarrow> string) \<Rightarrow> cell \<Rightarrow> cell" where
  "str_map f (CStr s) = CStr (f s)"
| "str_map f c = CNaN"

text \<open>
  \<open>(df["month"] >= 1) & (df["month"] <= 12)\<close>: comparing a text with a number raises
  TypeError; a missing value compares false.
\<close>

fun month_in_range :: "cell \<Rightarrow> bool" where
  "month_in_range (CInt i) = (1 \<le> i \<and> i \<le> 12)"
| "month_in_range (CFloat x) = (1 \<le> x \<and> x \<le> 12)"
| "month_in_range c = False"

text \<open>Python's \<open>int(x)\<close>: a float is truncated towards zero.\<close>

fun py_int_cell :: "backend \<Rightarrow> cell \<Rightarrow> error + int" where
  "py_int_cell b (CInt i) = Inr i"
| "py_int_cell b (CFloat x) = Inr (if 0 \<le> x then \<lfloor>x\<rfloor> else \<lceil>x\<rceil>)"
| "py_int_cell b (CStr s) = (case py_int b s of None \<Rightarrow> Inl ValueError | Some i \<Rightarrow> Inr i)"
| "py_int_cell b CNaN = Inl ValueError"

text \<open>\<open>{hs.code: hs for hs in ...}\<close>: a later entry replaces an earlier one with its key.\<close>

definition dict_of :: "HSCode list \<Rightarrow> (string \<rightharpoonup> HSCode)" where
  "dict_of hs = foldl (\<lambda>m h. m(code h \<mapsto> h)) Map.empty hs"

text \<open>\<open>HSCode.objects.filter(code__in=codes)\<close>.\<close>

definition hs_filter_in :: "string list \<Rightarrow> store \<Rightarrow> HSCode list" where
  "hs_filter_in codes st = filter (\<lambda>h. code h \<in> set codes) (hs_table st)"

text \<open>
  \<open>HSCode(code=..., description=...)\<close>: the prefix fields keep their default, since
  \<open>bulk_create\<close> does not call \<open>save\<close>.
\<close>

definition new_HSCode :: "string \<Rightarrow> string \<Rightarrow> HSCode" where
  "new_HSCode c d =
     \<lparr> code = c, hs_description = d, hs_chapter = [], hs_heading = [], hs_subheading = [] \<rparr>"

text \<open>
  \<open>HSCode.objects.bulk_create\<close>: one atomic insert. It fails when a code is already in the
  table or occurs twice in the batch (\<open>unique=True\<close>), or when the engine refuses a row.
\<close>

definition hs_bulk_create :: "backend \<Rightarrow> HSCode list \<Rightarrow> store \<Rightarrow> error + store" where
  "hs_bulk_create b objs st =
     (if distinct (map code objs)
         \<and> list_all (\<lambda>h. code h \<notin> set (map code (hs_table st))) objs
         \<and> list_all (hs_accepts b) objs
      then Inr (st\<lparr>hs_table := hs_table st @ objs\<rparr>)
      else Inl HSCodeInsertError)"

text \<open>A \<open>TradeData\<close> instance as the loop builds it, before the engine has seen it.\<close>

record trade_object =
  o_year :: int
  o_month :: int
  o_trade_type :: cell
  o_hs_code :: HSCode
  o_country :: cell
  o_quantity :: cell
  o_value_usd :: cell

text \<open>The body of the loop over \<open>df.itertuples\<close>, for one row.\<close>

definition make_trade :: "backend \<Rightarrow> (string \<rightharpoonup> HSCode) \<Rightarrow> row \<Rightarrow> error + trade_object" where
  "make_trade b all_hs r =
     (case py_int_cell b (c_year r) of
        Inl e \<Rightarrow> Inl e
      | Inr y \<Rightarrow>
     (case py_int_cell b (c_month r) of
        Inl e \<Rightarrow> Inl e
      | Inr m \<Rightarrow>
     (case all_hs (to_text b (c_hs_code r)) of
        None \<Rightarrow> Inl KeyError
      | Some h \<Rightarrow>
          Inr \<lparr> o_year = y, o_month = m, o_trade_type = c_trade_type r, o_hs_code = h,
                o_country = c_country r, o_quantity = c_quantity r,
                o_value_usd = c_value_usd r \<rparr>)))"

fun build_trades :: "backend \<Rightarrow> (string \<rightharpoonup> HSCode) \<Rightarrow> row list \<Rightarrow> error + trade_object list" where
  "build_trades b all_hs [] = Inr []"
| "build_trades b all_hs (r # rs) =
     (case make_trade b all_hs r of
        Inl e \<Rightarrow> Inl e
      | Inr t \<Rightarrow>
          (case build_trades b all_hs rs of
             Inl e \<Rightarrow> Inl e
           | Inr ts \<Rightarrow> Inr (t # ts)))"

text \<open>The row that the engine stores for an instance, if it accepts it; \<open>unit\<close> is None.\<close>

definition db_row :: "backend \<Rightarrow> trade_object \<Rightarrow> TradeData option" where
  "db_row b obj =
     (case to_decimal b (o_quantity obj) of
        None \<Rightarrow> None
      | Some q \<Rightarrow>
     (case to_decimal b (o_value_usd obj) of
        None \<Rightarrow> None
      | Some v \<Rightarrow>
     (let t = \<lparr> year = o_year obj, month = o_month obj,
                 trade_type = to_text b (o_trade_type obj), hs_code = o_hs_code obj,
                 country = Some (to_text b (o_country obj)), quantity = q,
                 unit_label = None, value_usd = v \<rparr>
      in if trade_accepts b t then Some t else None)))"

text \<open>
  \<open>with transaction.atomic(): TradeData.objects.bulk_create(...)\<close>: all rows or none.
\<close>

definition trade_bulk_create :: "backend \<Rightarrow> trade_object list \<Rightarrow> store \<Rightarrow> error + store" where
  "trade_bulk_create b objs st =
     (if list_all (\<lambda>obj. db_row b obj \<noteq> None) objs
      then Inr (st\<lparr>trade_table := trade_table st @ map (\<lambda>obj. the (db_row b obj)) objs\<rparr>)
      else Inl TradeInsertError)"

text \<open>The frame after the normalisation steps, up to the month filter.\<close>

definition normalize_hs_code :: "backend \<Rightarrow> row \<Rightarrow> row" where
  "normalize_hs_code b r = r\<lparr>c_hs_code := CStr (str_strip b (to_text b (c_hs_code r)))\<rparr>"

definition normalize_trade_type :: "backend \<Rightarrow> row \<Rightarrow> row" where
  "normalize_trade_type b r =
     r\<lparr>c_trade_type := str_map (str_strip b) (str_map (str_upper b) (c_trade_type r))\<rparr>"

text \<open>
  The first lines of \<open>process_dataframe\<close>, up to the month filter: the rows that go on,
  or the error raised.
\<close>

definition normalize_frame :: "backend \<Rightarrow> dataframe \<Rightarrow> error + row list" where
  "normalize_frame b df =
     (let df1 = map (normalize_hs_code b) (map fillna (rows df))
      in if \<not> str_accessor_ok (map c_trade_type df1) then Inl AttributeError
      else
     (let df2 = map (normalize_trade_type b) df1
      in if list_ex (\<lambda>r. is_text (c_month r)) df2 then Inl TypeError
      else Inr (filter (\<lambda>r. month_in_range (c_month r)) df2)))"

text \<open>
  The catalog entries to create: \<open>unique_hs_codes\<close>, \<open>existing_hs\<close> and the loop that
  fills \<open>new_hs_objects\<close>. Two rows are duplicates when they agree in both cells, the code
  and the description; a code is looked up only among the entries that the catalog had before.
\<close>

definition new_hs_objects :: "backend \<Rightarrow> store \<Rightarrow> row list \<Rightarrow> HSCode list" where
  "new_hs_objects b st df =
     (let unique_hs_codes = drop_duplicates (map (\<lambda>r. (c_hs_code r, c_description r)) df);
          existing_hs =
            dict_of (hs_filter_in (map (\<lambda>u. to_text b (fst u)) unique_hs_codes) st)
      in map (\<lambda>u. new_HSCode (to_text b (fst u)) (to_text b (snd u)))
           (filter (\<lambda>u. existing_hs (to_text b (fst u)) = None) unique_hs_codes))"

text \<open>
  \<open>process_dataframe\<close>. The result is the store afterwards, with the error raised or the
  number returned.
\<close>

definition process_dataframe :: "backend \<Rightarrow> store \<Rightarrow> dataframe \<Rightarrow> store \<times> (error + nat)" where
  "process_dataframe b st df0 =
     (case normalize_frame b df0 of
        Inl e \<Rightarrow> (st, Inl e)
      | Inr df \<Rightarrow>
     (let new = new_hs_objects b st df
      in case (if new \<noteq> [] then hs_bulk_create b new st else Inr st) of
           Inl e \<Rightarrow> (st, Inl e)
         | Inr st1 \<Rightarrow>
     (let all_hs = dict_of (hs_filter_in (map (\<lambda>r. to_text b (c_hs_code r)) df) st1)
      in case build_trades b all_hs df of
           Inl e \<Rightarrow> (st1, Inl e)
         | Inr trade_objects \<Rightarrow>
     (case trade_bulk_create b trade_objects st1 of
        Inl e \<Rightarrow> (st1, Inl e)
      | Inr st2 \<Rightarrow> (st2, Inr (length trade_objects))))))"

subsection \<open>post\<close>

text \<open>
  The uploaded file with the verdict of the form (\<open>TradeUploadForm\<close> is not part of the
  sources at hand).
\<close>

record upload =
  form_valid :: bool
  file_name :: string
  file_content :: "8 word list"

text \<open>
  What the request answers: the form again, one of the two fixed error messages, the message
  \<open>"Upload failed: ..."\<close> for an exception, or the success message with its count.
\<close>

datatype response =
    RenderForm
  | MessageError string
  | UploadFailed error
  | MessageSuccess nat

definition endswith :: "string \<Rightarrow> string \<Rightarrow> bool" where
  "endswith s suffix =
     (length suffix \<le> length s \<and> drop (length s - length suffix) s = suffix)"

definition required_columns :: "string list" where
  "required_columns =
     [''year'', ''month'', ''trade_type'', ''hs_code'', ''country'', ''quantity'',
      ''description'', ''value_usd'']"

text \<open>
  The frame read from the file: \<open>None\<close> when the name ends neither in \<open>.csv\<close> nor in
  \<open>.xlsx\<close>, otherwise what the reader returns or raises.
\<close>

definition load_dataframe :: "backend \<Rightarrow> upload \<Rightarrow> (error + dataframe) option" where
  "load_dataframe b up =
     (let filename = str_lower b (file_name up)
      in if endswith filename ''.csv'' then Some (read_csv_safely b (file_content up))
         else if endswith filename ''.xlsx'' then
           Some (case excel_parse b (file_content up) of
                   Inl m \<Rightarrow> Inl (ParserError m) | Inr df \<Rightarrow> Inr df)
         else None)"

definition post :: "backend \<Rightarrow> store \<Rightarrow> upload \<Rightarrow> store \<times> response" where
  "post b st up =
     (if \<not> form_valid up then (st, RenderForm)
      else
        (case load_dataframe b up of
           None \<Rightarrow> (st, MessageError ''Only CSV or Excel files are allowed.'')
         | Some (Inl e) \<Rightarrow> (st, UploadFailed e)
         | Some (Inr df) \<Rightarrow>
             if \<not> set required_columns \<subseteq> set (columns df)
             then (st, MessageError ''Missing required columns in file.'')
             else
               (case process_dataframe b st df of
                  (st', Inl e) \<Rightarrow> (st', UploadFailed e)
                | (st', Inr records_inserted) \<Rightarrow> (st', MessageSuccess records_inserted))))"

section \<open>A concrete backend\<close>

text \<open>
  The examples below run the model on a concrete backend. It covers ASCII text, integer
  literals in decimal digits and whole-numbered floats, and accepts the rows that the field
  declarations of \<open>models.py\<close> admit; on the cells of the examples it agrees with CPython,
  Django and an engine that compares texts exactly and returns groups sorted by their key.
\<close>

definition ascii_upper :: "char \<Rightarrow> char" where
  "ascii_upper c =
     (let n = (of_char c :: nat) in if 97 \<le> n \<and> n \<le> 122 then char_of (n - 32) else c)"

definition ascii_lower :: "char \<Rightarrow> char" where
  "ascii_lower c =
     (let n = (of_char c :: nat) in if 65 \<le> n \<and> n \<le> 90 then char_of (n + 32) else c)"

definition is_space :: "char \<Rightarrow> bool" where
  "is_space c = (let n = (of_char c :: nat) in (9 \<le> n \<and> n \<le> 13) \<or> (28 \<le> n \<and> n \<le> 32))"

definition strip_ws :: "string \<Rightarrow> string" where
  "strip_ws s = rev (dropWhile is_space (rev (dropWhile is_space s)))"

definition digit_of :: "char \<Rightarrow> nat option" where
  "digit_of c =
     (let n = (of_char c :: nat) in if 48 \<le> n \<and> n \<le> 57 then Some (n - 48) else None)"

fun parse_digits :: "nat \<Rightarrow> string \<Rightarrow> nat option" where
  "parse_digits acc [] = Some acc"
| "parse_digits acc (c # cs) =
     (case digit_of c of None \<Rightarrow> None | Some d \<Rightarrow> parse_digits (10 * acc + d) cs)"

definition parse_nat :: "string \<Rightarrow> nat option" where
  "parse_nat s = (if s = [] then None else parse_digits 0 s)"

definition parse_int :: "string \<Rightarrow> int option" where
  "parse_int s =
     (case strip_ws s of
        [] \<Rightarrow> None
      | c # cs \<Rightarrow>
          if c = CHR ''-'' then map_option (\<lambda>n. - int n) (parse_nat cs)
          else if c = CHR ''+'' then map_option int (parse_nat cs)
          else map_option int (parse_nat (c # cs)))"

fun show_digits :: "nat \<Rightarrow> nat \<Rightarrow> string" where
  "show_digits 0 n = []"
| "show_digits (Suc fuel) n =
     (if n < 10 then [char_of (48 + n)]
      else show_digits fuel (n div 10) @ [char_of (48 + n mod 10)])"

definition show_int :: "int \<Rightarrow> string" where
  "show_int i =
     (if i < 0 then CHR ''-'' # show_digits (Suc (nat (- i))) (nat (- i))
      else show_digits (Suc (nat i)) (nat i))"

fun show_cell :: "cell \<Rightarrow> string" where
  "show_cell CNaN = ''nan''"
| "show_cell (CInt i) = show_int i"
| "show_cell (CFloat x) = show_int \<lfloor>x\<rfloor> @ ''.0''"
| "show_cell (CStr s) = s"

fun is_prefix :: "string \<Rightarrow> string \<Rightarrow> bool" where
  "is_prefix [] ys = True"
| "is_prefix (x # xs) [] = False"
| "is_prefix (x # xs) (y # ys) = (x = y \<and> is_prefix xs ys)"

fun contains :: "string \<Rightarrow> string \<Rightarrow> bool" where
  "contains hay needle =
     (is_prefix needle hay \<or> (case hay of [] \<Rightarrow> False | c # cs \<Rightarrow> contains cs needle))"

definition fits_decimal :: "decimal \<Rightarrow> decimal option" where
  "fits_decimal v = (if \<bar>v\<bar> < 10 ^ 16 then Some v else None)"

fun decimal_of_cell :: "cell \<Rightarrow> decimal option" where
  "decimal_of_cell (CInt i) = fits_decimal (of_int i)"
| "decimal_of_cell (CFloat x) = fits_decimal (py_round2 x)"
| "decimal_of_cell (CStr s) =
     (case parse_int s of None \<Rightarrow> None | Some i \<Rightarrow> fits_decimal (of_int i))"
| "decimal_of_cell CNaN = None"

text \<open>
  The CSV reader on a text that is one header line: an empty frame with the names between
  the commas as its columns. An empty text has no columns to parse; other texts are not
  covered.
\<close>

fun split_on :: "nat \<Rightarrow> nat list \<Rightarrow> nat list list" where
  "split_on sep [] = [[]]"
| "split_on sep (c # cs) =
     (if c = sep then [] # split_on sep cs
      else (case split_on sep cs of [] \<Rightarrow> [[c]] | f # fs \<Rightarrow> (c # f) # fs))"

definition header_only_parse :: "nat list \<Rightarrow> string + dataframe" where
  "header_only_parse text =
     (if text = [] then Inl ''No columns to parse from file''
      else if last text = 10 \<and> 10 \<notin> set (butlast text)
      then Inr \<lparr> columns = map (map char_of) (split_on 44 (butlast text)), rows = [] \<rparr>
      else Inl ''not covered'')"

text \<open>
  Groups in ascending order of their key: texts by their characters, NULL before a text,
  a commodity by its code and then its description.
\<close>

fun text_le :: "string \<Rightarrow> string \<Rightarrow> bool" where
  "text_le [] ys = True"
| "text_le (x # xs) [] = False"
| "text_le (x # xs) (y # ys) =
     ((of_char x :: nat) < of_char y \<or> (x = y \<and> text_le xs ys))"

fun key_le :: "group_key \<Rightarrow> group_key \<Rightarrow> bool" where
  "key_le (ByDirection a) (ByDirection c) = text_le a c"
| "key_le (ByCountry None) (ByCountry c) = True"
| "key_le (ByCountry (Some a)) (ByCountry None) = False"
| "key_le (ByCountry (Some a)) (ByCountry (Some c)) = text_le a c"
| "key_le (ByCommodity a d) (ByCommodity c e) = (if a = c then text_le d e else text_le a c)"
| "key_le k k' = False"

definition sample_backend :: backend where
  "sample_backend =
     \<lparr> py_int = parse_int,
       py_str = show_cell,
       str_upper = map ascii_upper,
       str_lower = map ascii_lower,
       str_strip = strip_ws,
       to_decimal = decimal_of_cell,
       hs_accepts = (\<lambda>h. length (code h) \<le> 10),
       trade_accepts =
         (\<lambda>t. 0 \<le> year t \<and> year t \<le> 32767 \<and> 0 \<le> month t \<and> month t \<le> 32767
              \<and> length (trade_type t) \<le> 6
              \<and> (case country t of None \<Rightarrow> False | Some c \<Rightarrow> length c \<le> 100)),
       icontains = (\<lambda>hay needle. contains (map ascii_upper hay) (map ascii_upper needle)),
       group_before = key_le,
       csv_parse = header_only_parse,
       excel_parse = (\<lambda>raw. Inl ''not covered'') \<rparr>"

section \<open>Example data\<close>

definition empty_store :: store where
  "empty_store = \<lparr> hs_table = [], trade_table = [] \<rparr>"

definition no_params :: params where
  "no_params =
     \<lparr> p_year = None, p_month = None, p_trade_type = None, p_country = None,
       p_search = None, p_crop = None \<rparr>"

definition horses :: HSCode where
  "horses = new_HSCode ''0101'' ''Horses''"

text \<open>A stored record of 2020-01 for \<open>horses\<close>, with quantity 1.\<close>

definition sample_trade :: "string \<Rightarrow> string option \<Rightarrow> decimal \<Rightarrow> TradeData" where
  "sample_trade direction c v =
     \<lparr> year = 2020, month = 1, trade_type = direction, hs_code = horses, country = c,
       quantity = 1, unit_label = None, value_usd = v \<rparr>"

text \<open>A row of an uploaded file for the year 2020, with quantity 1.\<close>

definition sample_row :: "cell \<Rightarrow> string \<Rightarrow> string \<Rightarrow> string \<Rightarrow> string \<Rightarrow> cell \<Rightarrow> row" where
  "sample_row m direction c d land v =
     \<lparr> c_year = CInt 2020, c_month = m, c_trade_type = CStr direction, c_hs_code = CStr c,
       c_country = CStr land, c_quantity = CInt 1, c_description = CStr d, c_value_usd = v \<rparr>"

definition frame :: "row list \<Rightarrow> dataframe" where
  "frame rs = \<lparr> columns = required_columns, rows = rs \<rparr>"

text \<open>The trade balance as the specification words it: EXPORT value minus IMPORT value.\<close>

definition spec_trade_balance :: "TradeData list \<Rightarrow> decimal" where
  "spec_trade_balance qs =
     sum_list (map value_usd (filter (\<lambda>t. trade_type t = ''EXPORT'') qs))
     - sum_list (map value_usd (filter (\<lambda>t. trade_type t = ''IMPORT'') qs))"

text \<open>An upload of one import and one export, and the store that it leaves.\<close>

definition balance_frame :: dataframe where
  "balance_frame =
     frame [sample_row (CInt 1) ''import'' ''0101'' ''Horses'' ''KE'' (CInt 100),
            sample_row (CInt 1) ''Export'' ''0101'' ''Horses'' ''KE'' (CInt 300)]"

definition balance_store :: store where
  "balance_store =
     \<lparr> hs_table = [horses],
       trade_table = [sample_trade ''IMPORT'' (Some ''KE'') 100,
                      sample_trade ''EXPORT'' (Some ''KE'') 300] \<rparr>"

text \<open>A store whose only record has a negative value.\<close>

definition negative_store :: store where
  "negative_store =
     \<lparr> hs_table = [horses], trade_table = [sample_trade ''IMPORT'' (Some ''KE'') (- 100)] \<rparr>"

text \<open>A store with a record whose country is the empty text.\<close>

definition blank_store :: store where
  "blank_store =
     \<lparr> hs_table = [horses],
       trade_table = [sample_trade ''IMPORT'' (Some ''KE'') 100,
                      sample_trade ''EXPORT'' (Some []) 300] \<rparr>"

text \<open>A record with a country label: neither NULL nor the empty text.\<close>

definition named :: "TradeData \<Rightarrow> bool" where
  "named t = (country t \<noteq> None \<and> country t \<noteq> Some [])"

text \<open>
  An upload whose second row has no value, and the store that it leaves behind: the catalog
  entry, and no trade record.
\<close>

definition incomplete_frame :: dataframe where
  "incomplete_frame =
     frame [sample_row (CInt 1) ''IMPORT'' ''0101'' ''Horses'' ''KE'' (CInt 100),
            sample_row (CInt 2) ''EXPORT'' ''0101'' ''Horses'' ''KE'' CNaN]"

definition catalog_only_store :: store where
  "catalog_only_store = \<lparr> hs_table = [horses], trade_table = [] \<rparr>"

text \<open>An upload with the months 12, 13 and 0, and the store that it leaves behind.\<close>

definition months_frame :: dataframe where
  "months_frame =
     frame [sample_row (CInt 12) ''IMPORT'' ''0101'' ''Horses'' ''KE'' (CInt 100),
            sample_row (CInt 13) ''IMPORT'' ''0101'' ''Horses'' ''KE'' (CInt 200),
            sample_row (CInt 0) ''IMPORT'' ''0101'' ''Horses'' ''KE'' (CInt 300)]"

definition december_store :: store where
  "december_store =
     \<lparr> hs_table = [horses],
       trade_table = [(sample_trade ''IMPORT'' (Some ''KE'') 100)\<lparr>month := 12\<rparr>] \<rparr>"

text \<open>An upload in which one code comes with two descriptions.\<close>

definition two_descriptions_frame :: dataframe where
  "two_descriptions_frame =
     frame [sample_row (CInt 1) ''IMPORT'' ''0101'' ''Horses'' ''KE'' (CInt 100),
            sample_row (CInt 1) ''EXPORT'' ''0101'' ''Live horses'' ''KE'' (CInt 300)]"

text \<open>An uploaded CSV file that consists of the given header line.\<close>

definition csv_upload :: "string \<Rightarrow> upload" where
  "csv_upload header =
     \<lparr> form_valid = True, file_name = ''trade.csv'',
       file_content = map (\<lambda>c. of_nat (of_char c)) header @ [10] \<rparr>"

section \<open>Properties of the query primitives\<close>

lemma or0_Some: "or0 (Some v) = v"
  by simp

lemma or0_db_sum: "or0 (db_sum vs) = sum_list vs"
  by (simp add: db_sum_def)

lemma set_drop_duplicates: "set (drop_duplicates xs) = set xs"
  by (induction xs rule: drop_duplicates.induct) auto

lemma distinct_drop_duplicates: "distinct (drop_duplicates xs)"
  by (induction xs rule: drop_duplicates.induct) (auto simp: set_drop_duplicates)

lemma sum_list_single_key:
  "distinct ks \<Longrightarrow> (\<Sum>k\<leftarrow>ks. if a = k then (c::rat) else 0) = (if a \<in> set ks then c else 0)"
  by (induction ks) auto

lemma group_partition:
  fixes val :: "'a \<Rightarrow> rat"
  assumes "distinct ks" and "key ` set qs \<subseteq> set ks"
  shows "(\<Sum>k\<leftarrow>ks. sum_list (map val (filter (\<lambda>t. key t = k) qs))) = sum_list (map val qs)"
  using assms(2)
proof (induction qs)
  case Nil
  then show ?case by simp
next
  case (Cons r rs)
  have split: "\<And>k. sum_list (map val (filter (\<lambda>t. key t = k) (r # rs)))
      = (if key r = k then val r else 0) + sum_list (map val (filter (\<lambda>t. key t = k) rs))"
    by simp
  have "(\<Sum>k\<leftarrow>ks. sum_list (map val (filter (\<lambda>t. key t = k) (r # rs))))
      = (\<Sum>k\<leftarrow>ks. if key r = k then val r else 0)
        + (\<Sum>k\<leftarrow>ks. sum_list (map val (filter (\<lambda>t. key t = k) rs)))"
    unfolding split by (simp add: sum_list_addf)
  also have "\<dots> = val r + sum_list (map val rs)"
    using Cons assms(1) by (simp add: sum_list_single_key)
  finally show ?case by simp
qed

lemma engine_order_Nil: "engine_order before [] = []"
  by (simp add: engine_order_def)

lemma engine_order_Cons:
  "engine_order before (x # xs) = insert_by before x (engine_order before xs)"
  by (simp add: engine_order_def)

lemma set_insert_by: "set (insert_by before x xs) = insert x (set xs)"
  by (induction xs) auto

lemma set_engine_order: "set (engine_order before xs) = set xs"
  by (induction xs) (simp_all add: engine_order_Nil engine_order_Cons set_insert_by)

lemma distinct_insert_by:
  "distinct (insert_by before x xs) = (x \<notin> set xs \<and> distinct xs)"
  by (induction xs) (auto simp: set_insert_by)

lemma distinct_engine_order: "distinct (engine_order before xs) = distinct xs"
  by (induction xs)
    (simp_all add: engine_order_Nil engine_order_Cons distinct_insert_by set_engine_order)

lemma length_insert_by: "length (insert_by before x xs) = Suc (length xs)"
  by (induction xs) auto

lemma length_engine_order: "length (engine_order before xs) = length xs"
  by (induction xs) (simp_all add: engine_order_Nil engine_order_Cons length_insert_by)

lemma length_drop_duplicates: "length (drop_duplicates xs) = card (set xs)"
  using distinct_card [OF distinct_drop_duplicates, of xs]
  by (simp add: set_drop_duplicates)

lemma group_sum_total:
  "sum_list (map snd (group_sum before key qs)) = sum_list (map value_usd qs)"
proof -
  let ?ks = "engine_order before (drop_duplicates (map key qs))"
  have "sum_list (map snd (group_sum before key qs))
      = (\<Sum>k\<leftarrow>?ks. sum_list (map value_usd (filter (\<lambda>t. key t = k) qs)))"
    by (simp add: group_sum_def comp_def)
  also have "\<dots> = sum_list (map value_usd qs)"
    by (rule group_partition)
      (simp_all add: distinct_engine_order set_engine_order distinct_drop_duplicates
        set_drop_duplicates)
  finally show ?thesis .
qed

lemma group_sum_member:
  "(k, v) \<in> set (group_sum before key qs) \<longleftrightarrow>
     k \<in> key ` set qs \<and> v = sum_list (map value_usd (filter (\<lambda>t. key t = k) qs))"
  by (auto simp: group_sum_def set_engine_order set_drop_duplicates)

lemma map_fst_group_sum:
  "map fst (group_sum before key qs) = engine_order before (drop_duplicates (map key qs))"
  by (simp add: group_sum_def comp_def)

lemma distinct_keys_group_sum: "distinct (map fst (group_sum before key qs))"
  by (simp add: map_fst_group_sum distinct_engine_order distinct_drop_duplicates)

lemma length_group_sum: "length (group_sum before key qs) = card (key ` set qs)"
proof -
  have "length (group_sum before key qs) = length (map fst (group_sum before key qs))"
    by simp
  also have "\<dots> = card (set (map key qs))"
    unfolding map_fst_group_sum length_engine_order length_drop_duplicates ..
  finally show ?thesis by simp
qed

lemma set_top10: "set (top10 gs) \<subseteq> set gs"
  unfolding top10_def by (metis set_sort set_take_subset)

lemma length_top10: "length (top10 gs) = min 10 (length gs)"
  by (simp add: top10_def min.commute)

lemma distinct_keys_top10:
  assumes "distinct (map fst gs)"
  shows "distinct (map fst (top10 gs))"
proof -
  from assms have "distinct gs" and "inj_on fst (set gs)"
    by (simp_all add: distinct_map)
  then have "distinct (map fst (sort_key (\<lambda>g. - snd g) gs))"
    by (simp add: distinct_map)
  then show ?thesis
    unfolding top10_def take_map [symmetric] by (rule distinct_take)
qed

lemma top10_group_member:
  assumes "g \<in> set (top10 (group_sum before key qs))"
  shows "fst g \<in> key ` set qs
     \<and> snd g = sum_list (map value_usd (filter (\<lambda>t. key t = fst g) qs))"
proof -
  from assms set_top10 have "g \<in> set (group_sum before key qs)" by blast
  then have "(fst g, snd g) \<in> set (group_sum before key qs)" by simp
  then show ?thesis unfolding group_sum_member .
qed

lemma get_context_data_Inr:
  "get_queryset b p st = Inr qs \<Longrightarrow> get_context_data b p st = Inr (context_of b qs)"
  by (simp add: get_context_data_def)

lemma context_of_Nil:
  "context_of b [] = \<lparr> total_quantity = 0, total_value = 0, total_records = 0,
       top_countries = [], top_hs_codes = [], trade_split = [],
       concentration_ratio = 0, trade_balance = 0 \<rparr>"
  by (simp add: context_of_def db_sum_def top_countries_of_def top_hs_codes_of_def
      trade_split_of_def concentration_ratio_of_def trade_balance_of_def group_sum_def
      engine_order_Nil top10_def py_round2_def round_half_even_def)

section \<open>The aggregation engine\<close>

text \<open>
  C4. When the filtered set is empty, \<open>get_context_data\<close> returns (it does not raise): the
  three totals, the concentration ratio and the trade balance are 0, and the top-10 lists of
  countries and of commodities (and the direction split) are empty.
\<close>

theorem empty_view_metrics:
  assumes "get_queryset b p st = Inr []"
  shows "get_context_data b p st =
     Inr \<lparr> total_quantity = 0, total_value = 0, total_records = 0,
           top_countries = [], top_hs_codes = [], trade_split = [],
           concentration_ratio = 0, trade_balance = 0 \<rparr>"
  using assms by (simp add: get_context_data_def context_of_Nil)

theorem empty_view_metrics_witness:
  "get_queryset sample_backend (no_params\<lparr>p_trade_type := Some ''IMPORT''\<rparr>)
      \<lparr> hs_table = [horses], trade_table = [sample_trade ''EXPORT'' (Some ''KE'') 300] \<rparr> = Inr []
   \<and> get_context_data sample_backend (no_params\<lparr>p_trade_type := Some ''IMPORT''\<rparr>)
      \<lparr> hs_table = [horses], trade_table = [sample_trade ''EXPORT'' (Some ''KE'') 300] \<rparr> =
     Inr \<lparr> total_quantity = 0, total_value = 0, total_records = 0,
           top_countries = [], top_hs_codes = [], trade_split = [],
           concentration_ratio = 0, trade_balance = 0 \<rparr>"
proof -
  have h: "get_queryset sample_backend (no_params\<lparr>p_trade_type := Some ''IMPORT''\<rparr>)
      \<lparr> hs_table = [horses], trade_table = [sample_trade ''EXPORT'' (Some ''KE'') 300] \<rparr> = Inr []"
    by code_simp
  show ?thesis using h empty_view_metrics [OF h] by simp
qed

text \<open>
  C1. The claim: the trade balance of a filtered view is its EXPORT value minus its IMPORT
  value, the directions being stored in upper case. Evaluated on the store that an upload of
  one import of 100 and one export of 300 leaves: the directions are stored as \<open>IMPORT\<close> and
  \<open>EXPORT\<close>, EXPORT minus IMPORT is 200, and the view reports the trade balance 0, since it
  filters on \<open>Export\<close> and \<open>Import\<close>.
\<close>

theorem trade_balance_of_ingested_records:
  "process_dataframe sample_backend empty_store balance_frame = (balance_store, Inr 2)
   \<and> get_queryset sample_backend no_params balance_store = Inr (trade_table balance_store)
   \<and> spec_trade_balance (trade_table balance_store) = 200
   \<and> get_context_data sample_backend no_params balance_store =
       Inr \<lparr> total_quantity = 2, total_value = 400, total_records = 2,
             top_countries = [(Some ''KE'', 400)],
             top_hs_codes = [((''0101'', ''Horses''), 400)],
             trade_split = [(''EXPORT'', 300, 75), (''IMPORT'', 100, 25)],
             concentration_ratio = 100, trade_balance = 0 \<rparr>"
  by code_simp

section \<open>The export\<close>

text \<open>
  C7. The claim: the export lists one row per record that matches the filter parameters of
  the listing. Evaluated with \<open>trade_type=IMPORT\<close> on a store of one import and one export:
  the listing selects the import alone, the export writes both records after the header.
\<close>

theorem export_ignores_trade_type:
  "get_queryset sample_backend (no_params\<lparr>p_trade_type := Some ''IMPORT''\<rparr>) balance_store
     = Inr [sample_trade ''IMPORT'' (Some ''KE'') 100]
   \<and> export_filtered_data sample_backend (no_params\<lparr>p_trade_type := Some ''IMPORT''\<rparr>) balance_store
     = Inr [export_header,
            export_row (sample_trade ''IMPORT'' (Some ''KE'') 100),
            export_row (sample_trade ''EXPORT'' (Some ''KE'') 300)]"
  by code_simp

section \<open>Properties of the metrics\<close>

lemma filter_named_country:
  assumes "c \<noteq> None" and "c \<noteq> Some []"
  shows "filter (\<lambda>t. country t = c)
           (filter (\<lambda>t. country t \<noteq> Some []) (filter (\<lambda>t. country t \<noteq> None) qs))
         = filter (\<lambda>t. country t = c) qs"
  using assms by (induction qs) auto

lemma filter_named:
  "filter (\<lambda>t. country t \<noteq> Some []) (filter (\<lambda>t. country t \<noteq> None) qs) = filter named qs"
  by (induction qs) (auto simp: named_def)

lemma sum_list_filter_split:
  fixes f :: "'a \<Rightarrow> rat"
  shows "sum_list (map f (filter P xs)) + sum_list (map f (filter (\<lambda>x. \<not> P x) xs))
         = sum_list (map f xs)"
  by (induction xs) auto

lemma length_filter_split:
  "length (filter P xs) + length (filter (\<lambda>x. \<not> P x) xs) = length xs"
  by (induction xs) auto

lemma top_countries_member:
  assumes "g \<in> set (top_countries_of b qs)"
  shows "fst g \<noteq> None \<and> fst g \<noteq> Some []
         \<and> snd g = sum_list (map value_usd (filter (\<lambda>t. country t = fst g) qs))"
proof -
  let ?named = "filter (\<lambda>t. country t \<noteq> Some []) (filter (\<lambda>t. country t \<noteq> None) qs)"
  from assms [unfolded top_countries_of_def] have k: "fst g \<in> country ` set ?named"
    and v: "snd g = sum_list (map value_usd (filter (\<lambda>t. country t = fst g) ?named))"
    using top10_group_member by blast+
  from k have n: "fst g \<noteq> None" "fst g \<noteq> Some []" by auto
  from v [unfolded filter_named_country [OF n]] n show ?thesis by blast
qed

lemma distinct_top_countries: "distinct (map fst (top_countries_of b qs))"
  unfolding top_countries_of_def by (rule distinct_keys_top10) (rule distinct_keys_group_sum)

lemma length_top_countries:
  "length (top_countries_of b qs) = min 10 (card (country ` set (filter named qs)))"
  unfolding top_countries_of_def length_top10 length_group_sum filter_named ..

lemma top_hs_codes_member:
  assumes "g \<in> set (top_hs_codes_of b qs)"
  shows "fst g \<in> (\<lambda>t. (code (hs_code t), hs_description (hs_code t))) ` set qs
     \<and> snd g = sum_list (map value_usd
           (filter (\<lambda>t. (code (hs_code t), hs_description (hs_code t)) = fst g) qs))"
  using assms [unfolded top_hs_codes_of_def] by (rule top10_group_member)

lemma distinct_top_hs_codes: "distinct (map fst (top_hs_codes_of b qs))"
  unfolding top_hs_codes_of_def by (rule distinct_keys_top10) (rule distinct_keys_group_sum)

lemma length_top_hs_codes:
  "length (top_hs_codes_of b qs) =
     min 10 (card ((\<lambda>t. (code (hs_code t), hs_description (hs_code t))) ` set qs))"
  unfolding top_hs_codes_of_def length_top10 length_group_sum ..

lemma concentration_ratio_eq:
  "concentration_ratio_of b qs =
     py_round2 (if 0 < sum_list (map value_usd qs)
                then sum_list (map snd (top_hs_codes_of b qs)) / sum_list (map value_usd qs) * 100
                else 0)"
  by (simp add: concentration_ratio_of_def Let_def or0_db_sum del: or0.simps)

lemma trade_split_explicit:
  "trade_split_of b qs =
     map (\<lambda>k. (k, sum_list (map value_usd (filter (\<lambda>t. trade_type t = k) qs)),
                if 0 < sum_list (map value_usd qs)
                then py_round2 (sum_list (map value_usd (filter (\<lambda>t. trade_type t = k) qs))
                                / sum_list (map value_usd qs) * 100)
                else 0))
       (engine_order (\<lambda>k k'. group_before b (ByDirection k) (ByDirection k'))
          (drop_duplicates (map trade_type qs)))"
proof -
  let ?before = "\<lambda>k k'. group_before b (ByDirection k) (ByDirection k')"
  have total: "sum_list (map (\<lambda>item. or0 (Some (snd item))) (group_sum ?before trade_type qs))
      = sum_list (map value_usd qs)"
    using group_sum_total [of ?before trade_type qs] by (simp add: or0_Some del: or0.simps)
  show ?thesis
    unfolding trade_split_of_def Let_def total
    by (simp add: group_sum_def comp_def)
qed

lemma trade_split_set:
  "set (trade_split_of b qs) =
     (\<lambda>k. (k, sum_list (map value_usd (filter (\<lambda>t. trade_type t = k) qs)),
                if 0 < sum_list (map value_usd qs)
                then py_round2 (sum_list (map value_usd (filter (\<lambda>t. trade_type t = k) qs))
                                / sum_list (map value_usd qs) * 100)
                else 0)) ` (trade_type ` set qs)"
  unfolding trade_split_explicit by (simp only: set_map set_engine_order set_drop_duplicates)

lemma trade_split_member:
  assumes "item \<in> set (trade_split_of b qs)"
  shows "fst item \<in> trade_type ` set qs
     \<and> fst (snd item) = sum_list (map value_usd (filter (\<lambda>t. trade_type t = fst item) qs))
     \<and> snd (snd item) =
         (if 0 < sum_list (map value_usd qs)
          then py_round2 (fst (snd item) / sum_list (map value_usd qs) * 100) else 0)"
  using assms unfolding trade_split_set by auto

lemma distinct_trade_split: "distinct (map fst (trade_split_of b qs))"
  unfolding trade_split_explicit
  by (simp add: comp_def distinct_engine_order distinct_drop_duplicates)

lemma keys_trade_split: "fst ` set (trade_split_of b qs) = trade_type ` set qs"
  unfolding trade_split_set by (simp add: image_image)

lemma two_directions_total:
  assumes "\<forall>t\<in>set qs. trade_type t = ''IMPORT'' \<or> trade_type t = ''EXPORT''"
  shows "sum_list (map value_usd qs)
       = sum_list (map value_usd (filter (\<lambda>t. trade_type t = ''IMPORT'') qs))
       + sum_list (map value_usd (filter (\<lambda>t. trade_type t = ''EXPORT'') qs))"
  using assms by (induction qs) auto

lemma nonzero_sum_nonempty:
  fixes f :: "'a \<Rightarrow> rat"
  assumes "sum_list (map f (filter P xs)) \<noteq> 0"
  shows "\<exists>x\<in>set xs. P x"
proof (rule ccontr)
  assume "\<not> (\<exists>x\<in>set xs. P x)"
  then have "filter P xs = []" by (simp add: filter_empty_conv)
  with assms show False by simp
qed

lemma round_25: "py_round2 25 = 25"
  by (simp add: py_round2_def round_half_even_def)

lemma round_75: "py_round2 75 = 75"
  by (simp add: py_round2_def round_half_even_def)

lemma image_two_values:
  assumes "\<forall>t\<in>set qs. f t = a \<or> f t = b" and "a \<in> f ` set qs" and "b \<in> f ` set qs"
  shows "f ` set qs = {a, b}"
  using assms by auto

lemma two_direction_split:
  assumes dirs: "\<forall>t\<in>set qs. trade_type t = a \<or> trade_type t = c"
    and imp: "sum_list (map value_usd (filter (\<lambda>t. trade_type t = a) qs)) = 100"
    and exp: "sum_list (map value_usd (filter (\<lambda>t. trade_type t = c) qs)) = 300"
    and total: "sum_list (map value_usd qs) = 400"
  shows "set (trade_split_of b qs) = {(a, 100, 25), (c, 300, 75)}"
proof -
  have "\<exists>t\<in>set qs. trade_type t = a"
    by (rule nonzero_sum_nonempty [of value_usd]) (simp add: imp)
  then have has_a: "a \<in> trade_type ` set qs" by force
  have "\<exists>t\<in>set qs. trade_type t = c"
    by (rule nonzero_sum_nonempty [of value_usd]) (simp add: exp)
  then have has_c: "c \<in> trade_type ` set qs" by force
  have keys: "trade_type ` set qs = {a, c}"
    using dirs has_a has_c by (rule image_two_values)
  show ?thesis
    unfolding trade_split_set keys
    by (simp add: imp exp total round_25 round_75)
qed

text \<open>
  C5, as the code has it. For every filtered view the direction split has exactly one entry
  for each direction present, in the order of the engine; the entry's total is the value of
  the view's records of that direction, and its percentage is
  \<open>round(direction_total / grand_total * 100, 2)\<close> when the grand total (the value of all
  records of the view) is greater than 0, and 0 when the grand total is 0 or negative. For a
  view of IMPORT records totalling 100 and EXPORT records totalling 300 the entries are
  IMPORT 25.00 and EXPORT 75.00.
\<close>

theorem trade_split_percentages:
  assumes view: "get_queryset b p st = Inr qs"
    and ctx: "get_context_data b p st = Inr ctx"
  shows "distinct (map fst (trade_split ctx))
    \<and> fst ` set (trade_split ctx) = trade_type ` set qs
    \<and> (\<forall>item \<in> set (trade_split ctx).
          fst (snd item) = sum_list (map value_usd (filter (\<lambda>t. trade_type t = fst item) qs))
        \<and> snd (snd item) =
            (if 0 < sum_list (map value_usd qs)
             then py_round2 (fst (snd item) / sum_list (map value_usd qs) * 100) else 0))
    \<and> ((\<forall>t\<in>set qs. trade_type t = ''IMPORT'' \<or> trade_type t = ''EXPORT'')
        \<and> sum_list (map value_usd (filter (\<lambda>t. trade_type t = ''IMPORT'') qs)) = 100
        \<and> sum_list (map value_usd (filter (\<lambda>t. trade_type t = ''EXPORT'') qs)) = 300
        \<longrightarrow> set (trade_split ctx) = {(''IMPORT'', 100, 25), (''EXPORT'', 300, 75)})"
proof -
  from view ctx have c: "ctx = context_of b qs"
    by (simp add: get_context_data_def)
  have split: "trade_split ctx = trade_split_of b qs"
    by (simp add: c context_of_def)
  have once: "distinct (map fst (trade_split ctx))"
    unfolding split by (rule distinct_trade_split)
  have present: "fst ` set (trade_split ctx) = trade_type ` set qs"
    unfolding split by (rule keys_trade_split)
  have each: "\<forall>item \<in> set (trade_split ctx).
          fst (snd item) = sum_list (map value_usd (filter (\<lambda>t. trade_type t = fst item) qs))
        \<and> snd (snd item) =
            (if 0 < sum_list (map value_usd qs)
             then py_round2 (fst (snd item) / sum_list (map value_usd qs) * 100) else 0)"
    unfolding split using trade_split_member [of _ b qs] by blast
  have example: "set (trade_split ctx) = {(''IMPORT'', 100, 25), (''EXPORT'', 300, 75)}"
    if dirs: "\<forall>t\<in>set qs. trade_type t = ''IMPORT'' \<or> trade_type t = ''EXPORT''"
      and imp: "sum_list (map value_usd (filter (\<lambda>t. trade_type t = ''IMPORT'') qs)) = 100"
      and exp: "sum_list (map value_usd (filter (\<lambda>t. trade_type t = ''EXPORT'') qs)) = 300"
  proof -
    have total: "sum_list (map value_usd qs) = 400"
      unfolding two_directions_total [OF dirs] imp exp by simp
    show ?thesis
      unfolding split using dirs imp exp total by (rule two_direction_split)
  qed
  from once present each example show ?thesis by blast
qed

theorem trade_split_percentages_witness:
  "get_queryset sample_backend no_params balance_store = Inr (trade_table balance_store)
   \<and> get_context_data sample_backend no_params balance_store
       = Inr (context_of sample_backend (trade_table balance_store))
   \<and> set (trade_split (context_of sample_backend (trade_table balance_store)))
       = {(''IMPORT'', 100, 25), (''EXPORT'', 300, 75)}"
proof -
  have v: "get_queryset sample_backend no_params balance_store = Inr (trade_table balance_store)"
    by code_simp
  have c: "get_context_data sample_backend no_params balance_store
       = Inr (context_of sample_backend (trade_table balance_store))"
    using v by (rule get_context_data_Inr)
  have d: "\<forall>t\<in>set (trade_table balance_store). trade_type t = ''IMPORT'' \<or> trade_type t = ''EXPORT''"
    by (simp add: balance_store_def sample_trade_def)
  have i: "sum_list (map value_usd (filter (\<lambda>t. trade_type t = ''IMPORT'') (trade_table balance_store))) = 100"
    by (simp add: balance_store_def sample_trade_def)
  have e: "sum_list (map value_usd (filter (\<lambda>t. trade_type t = ''EXPORT'') (trade_table balance_store))) = 300"
    by (simp add: balance_store_def sample_trade_def)
  from trade_split_percentages [OF v c] d i e
  have "set (trade_split (context_of sample_backend (trade_table balance_store)))
       = {(''IMPORT'', 100, 25), (''EXPORT'', 300, 75)}" by blast
  with v c show ?thesis by blast
qed

text \<open>
  C5 as stated gives the rounded quotient whenever the grand total is not 0. On the store
  left by an upload of one IMPORT row of value -100, the grand total is -100, the rounded
  quotient is 100, and the view reports the percentage 0.
\<close>

theorem negative_total_split_counterexample:
  "process_dataframe sample_backend empty_store
      (frame [sample_row (CInt 1) ''IMPORT'' ''0101'' ''Horses'' ''KE'' (CInt (- 100))])
     = (negative_store, Inr 1)
   \<and> get_context_data sample_backend no_params negative_store =
       Inr \<lparr> total_quantity = 1, total_value = - 100, total_records = 1,
             top_countries = [(Some ''KE'', - 100)],
             top_hs_codes = [((''0101'', ''Horses''), - 100)],
             trade_split = [(''IMPORT'', - 100, 0)],
             concentration_ratio = 0, trade_balance = 0 \<rparr>
   \<and> py_round2 ((- 100) / (- 100) * 100) = 100"
  by code_simp

text \<open>
  C10. For every filtered view, the top-10 countries list only countries that are neither
  NULL nor the empty text, each once with the value of the view's records of that country,
  and as many of them as there are (at most ten). The records without a country label still
  count everywhere else: \<open>total_value\<close>, \<open>total_quantity\<close> and \<open>total_records\<close> are the sums
  over the labelled and the unlabelled records; the direction split has one entry for every
  direction of any record of the view, with the value of all the view's records of that
  direction; the top-10 commodities list commodities of any record of the view, each once with
  the value of all the view's records of that commodity, and as many as there are (at most
  ten); the concentration ratio is computed from these. For some store with fewer than ten
  distinct countries the totals of the listed countries add up to less than \<open>total_value\<close>.
\<close>

theorem blank_countries_leave_only_the_country_breakdown:
  assumes view: "get_queryset b p st = Inr qs"
    and ctx: "get_context_data b p st = Inr ctx"
  shows "(\<forall>g \<in> set (top_countries ctx).
            fst g \<noteq> None \<and> fst g \<noteq> Some []
          \<and> snd g = sum_list (map value_usd (filter (\<lambda>t. country t = fst g) qs)))
    \<and> distinct (map fst (top_countries ctx))
    \<and> length (top_countries ctx) = min 10 (card (country ` set (filter named qs)))
    \<and> total_value ctx =
          sum_list (map value_usd (filter named qs))
        + sum_list (map value_usd (filter (\<lambda>t. \<not> named t) qs))
    \<and> total_quantity ctx =
          sum_list (map quantity (filter named qs))
        + sum_list (map quantity (filter (\<lambda>t. \<not> named t) qs))
    \<and> total_records ctx = length (filter named qs) + length (filter (\<lambda>t. \<not> named t) qs)
    \<and> distinct (map fst (trade_split ctx))
    \<and> fst ` set (trade_split ctx) = trade_type ` set qs
    \<and> (\<forall>item \<in> set (trade_split ctx).
          fst (snd item) = sum_list (map value_usd (filter (\<lambda>t. trade_type t = fst item) qs)))
    \<and> distinct (map fst (top_hs_codes ctx))
    \<and> length (top_hs_codes ctx) =
          min 10 (card ((\<lambda>t. (code (hs_code t), hs_description (hs_code t))) ` set qs))
    \<and> (\<forall>g \<in> set (top_hs_codes ctx).
          fst g \<in> (\<lambda>t. (code (hs_code t), hs_description (hs_code t))) ` set qs
        \<and> snd g = sum_list (map value_usd
            (filter (\<lambda>t. (code (hs_code t), hs_description (hs_code t)) = fst g) qs)))
    \<and> concentration_ratio ctx =
          py_round2 (if 0 < sum_list (map value_usd qs)
                     then sum_list (map snd (top_hs_codes ctx)) / sum_list (map value_usd qs) * 100
                     else 0)
    \<and> (\<exists>st0 qs0. get_queryset sample_backend no_params st0 = Inr qs0
          \<and> length (drop_duplicates (map country qs0)) < 10
          \<and> sum_list (map snd (top_countries (context_of sample_backend qs0)))
              < total_value (context_of sample_backend qs0))"
proof -
  from view ctx have c: "ctx = context_of b qs"
    by (simp add: get_context_data_def)
  have tc: "top_countries ctx = top_countries_of b qs"
    and th: "top_hs_codes ctx = top_hs_codes_of b qs"
    and ts: "trade_split ctx = trade_split_of b qs"
    by (simp_all add: c context_of_def)
  have countries: "\<forall>g \<in> set (top_countries ctx).
            fst g \<noteq> None \<and> fst g \<noteq> Some []
          \<and> snd g = sum_list (map value_usd (filter (\<lambda>t. country t = fst g) qs))"
    unfolding tc using top_countries_member [of _ b qs] by blast
  have countries_once: "distinct (map fst (top_countries ctx))"
    unfolding tc by (rule distinct_top_countries)
  have countries_many:
    "length (top_countries ctx) = min 10 (card (country ` set (filter named qs)))"
    unfolding tc by (rule length_top_countries)
  have tv: "total_value ctx =
          sum_list (map value_usd (filter named qs))
        + sum_list (map value_usd (filter (\<lambda>t. \<not> named t) qs))"
    unfolding sum_list_filter_split by (simp add: c context_of_def or0_db_sum del: or0.simps)
  have tq: "total_quantity ctx =
          sum_list (map quantity (filter named qs))
        + sum_list (map quantity (filter (\<lambda>t. \<not> named t) qs))"
    unfolding sum_list_filter_split by (simp add: c context_of_def or0_db_sum del: or0.simps)
  have tr: "total_records ctx = length (filter named qs) + length (filter (\<lambda>t. \<not> named t) qs)"
    unfolding length_filter_split by (simp add: c context_of_def)
  have split_once: "distinct (map fst (trade_split ctx))"
    unfolding ts by (rule distinct_trade_split)
  have split_keys: "fst ` set (trade_split ctx) = trade_type ` set qs"
    unfolding ts by (rule keys_trade_split)
  have split: "\<forall>item \<in> set (trade_split ctx).
          fst (snd item) = sum_list (map value_usd (filter (\<lambda>t. trade_type t = fst item) qs))"
    unfolding ts using trade_split_member [of _ b qs] by blast
  have codes_once: "distinct (map fst (top_hs_codes ctx))"
    unfolding th by (rule distinct_top_hs_codes)
  have codes_many: "length (top_hs_codes ctx) =
          min 10 (card ((\<lambda>t. (code (hs_code t), hs_description (hs_code t))) ` set qs))"
    unfolding th by (rule length_top_hs_codes)
  have codes: "\<forall>g \<in> set (top_hs_codes ctx).
          fst g \<in> (\<lambda>t. (code (hs_code t), hs_description (hs_code t))) ` set qs
        \<and> snd g = sum_list (map value_usd
            (filter (\<lambda>t. (code (hs_code t), hs_description (hs_code t)) = fst g) qs))"
    unfolding th using top_hs_codes_member [of _ b qs] by blast
  have ratio: "concentration_ratio ctx =
          py_round2 (if 0 < sum_list (map value_usd qs)
                     then sum_list (map snd (top_hs_codes ctx)) / sum_list (map value_usd qs) * 100
                     else 0)"
    by (simp add: c context_of_def concentration_ratio_eq)
  have ex1: "get_queryset sample_backend no_params blank_store = Inr (trade_table blank_store)"
    by code_simp
  have ex2: "length (drop_duplicates (map country (trade_table blank_store))) < 10"
    by code_simp
  have ex3: "sum_list (map snd (top_countries (context_of sample_backend (trade_table blank_store))))
      < total_value (context_of sample_backend (trade_table blank_store))"
    by code_simp
  from ex1 ex2 ex3 have example: "\<exists>st0 qs0. get_queryset sample_backend no_params st0 = Inr qs0
          \<and> length (drop_duplicates (map country qs0)) < 10
          \<and> sum_list (map snd (top_countries (context_of sample_backend qs0)))
              < total_value (context_of sample_backend qs0)"
    by blast
  show ?thesis
    by (intro conjI) (fact countries countries_once countries_many tv tq tr split_once
        split_keys split codes_once codes_many codes ratio example)+
qed

theorem blank_countries_witness:
  "get_queryset sample_backend no_params blank_store = Inr (trade_table blank_store)
   \<and> get_context_data sample_backend no_params blank_store
       = Inr (context_of sample_backend (trade_table blank_store))
   \<and> top_countries (context_of sample_backend (trade_table blank_store)) = [(Some ''KE'', 100)]
   \<and> total_value (context_of sample_backend (trade_table blank_store)) = 100 + 300
   \<and> total_records (context_of sample_backend (trade_table blank_store)) = 1 + 1
   \<and> fst ` set (trade_split (context_of sample_backend (trade_table blank_store)))
       = trade_type ` set (trade_table blank_store)
   \<and> trade_split (context_of sample_backend (trade_table blank_store))
       = [(''EXPORT'', 300, 75), (''IMPORT'', 100, 25)]
   \<and> length (top_hs_codes (context_of sample_backend (trade_table blank_store))) = 1
   \<and> top_hs_codes (context_of sample_backend (trade_table blank_store))
       = [((''0101'', ''Horses''), 400)]
   \<and> concentration_ratio (context_of sample_backend (trade_table blank_store)) = 100"
proof -
  let ?ctx = "context_of sample_backend (trade_table blank_store)"
  have v: "get_queryset sample_backend no_params blank_store = Inr (trade_table blank_store)"
    by code_simp
  have c: "get_context_data sample_backend no_params blank_store = Inr ?ctx"
    using v by (rule get_context_data_Inr)
  have n: "filter named (trade_table blank_store) = [sample_trade ''IMPORT'' (Some ''KE'') 100]"
    by (simp add: blank_store_def sample_trade_def named_def)
  have m: "filter (\<lambda>t. \<not> named t) (trade_table blank_store) = [sample_trade ''EXPORT'' (Some []) 300]"
    by (simp add: blank_store_def sample_trade_def named_def)
  have one: "card ((\<lambda>t. (code (hs_code t), hs_description (hs_code t))) ` set (trade_table blank_store)) = 1"
    by (simp add: blank_store_def sample_trade_def)
  note facts = blank_countries_leave_only_the_country_breakdown [OF v c]
  from facts have tv: "total_value ?ctx = 100 + 300"
    and tr: "total_records ?ctx = 1 + 1"
    unfolding n m by (simp_all add: sample_trade_def)
  from facts have keys: "fst ` set (trade_split ?ctx) = trade_type ` set (trade_table blank_store)"
    by blast
  from facts have "length (top_hs_codes ?ctx)
      = min 10 (card ((\<lambda>t. (code (hs_code t), hs_description (hs_code t))) ` set (trade_table blank_store)))"
    by blast
  then have len: "length (top_hs_codes ?ctx) = 1" unfolding one by simp
  have t: "top_countries ?ctx = [(Some ''KE'', 100)]"
    by code_simp
  have s: "trade_split ?ctx = [(''EXPORT'', 300, 75), (''IMPORT'', 100, 25)]"
    by code_simp
  have h: "top_hs_codes ?ctx = [((''0101'', ''Horses''), 400)]"
    by code_simp
  have r: "concentration_ratio ?ctx = 100"
    by code_simp
  show ?thesis
    by (intro conjI) (fact v c t tv tr keys s len h r)+
qed

section \<open>Properties of the upload\<close>

lemma hs_bulk_create_trades:
  "hs_bulk_create b objs st = Inr st1 \<Longrightarrow>
     trade_table st1 = trade_table st \<and> hs_table st1 = hs_table st @ objs"
  by (auto simp: hs_bulk_create_def split: if_splits)

lemma trade_bulk_create_tables:
  "trade_bulk_create b objs st = Inr st2 \<Longrightarrow>
     hs_table st2 = hs_table st
     \<and> trade_table st2 = trade_table st @ map (\<lambda>obj. the (db_row b obj)) objs
     \<and> list_all (\<lambda>obj. db_row b obj \<noteq> None) objs"
  by (auto simp: trade_bulk_create_def split: if_splits)

lemma db_row_month:
  "db_row b obj = Some t \<Longrightarrow> month t = o_month obj \<and> year t = o_year obj"
  by (auto simp: db_row_def Let_def split: option.splits if_splits)

lemma make_trade_month:
  "make_trade b all_hs r = Inr obj \<Longrightarrow> py_int_cell b (c_month r) = Inr (o_month obj)"
  by (auto simp: make_trade_def split: sum.splits option.splits)

lemma build_trades_rel:
  "build_trades b all_hs rs = Inr objs \<Longrightarrow>
     list_all2 (\<lambda>r obj. make_trade b all_hs r = Inr obj) rs objs"
  by (induction rs arbitrary: objs) (auto split: sum.splits)

lemma build_trades_error:
  "build_trades b all_hs rs = Inl e \<Longrightarrow> e = ValueError \<or> e = KeyError"
proof (induction rs)
  case Nil
  then show ?case by simp
next
  case (Cons r rs)
  then show ?case
    by (auto simp: make_trade_def split: sum.splits option.splits cell.splits
        elim!: py_int_cell.elims)
qed

lemma month_in_range_int:
  "month_in_range c \<Longrightarrow> py_int_cell b c = Inr m \<Longrightarrow> 1 \<le> m \<and> m \<le> 12"
proof (cases c)
  case (CFloat x)
  assume "month_in_range c" and "py_int_cell b c = Inr m"
  with CFloat have "1 \<le> x" "x \<le> 12" "m = \<lfloor>x\<rfloor>" by auto
  then show ?thesis by (simp add: le_floor_iff floor_le_iff)
qed auto


lemma catalog_step_tables:
  assumes "(if new \<noteq> [] then hs_bulk_create b new st else Inr st) = Inr st1"
  shows "trade_table st1 = trade_table st \<and> hs_table st1 = hs_table st @ new"
proof (cases "new = []")
  case True
  with assms show ?thesis by simp
next
  case False
  with assms have "hs_bulk_create b new st = Inr st1" by simp
  then show ?thesis by (rule hs_bulk_create_trades)
qed

lemma catalog_step_error:
  assumes "(if new \<noteq> [] then hs_bulk_create b new st else Inr st) = Inl e"
  shows "e = HSCodeInsertError"
  using assms by (auto simp: hs_bulk_create_def split: if_splits)

lemma trade_bulk_create_error:
  "trade_bulk_create b objs st = Inl e \<Longrightarrow> e = TradeInsertError"
  by (auto simp: trade_bulk_create_def split: if_splits)

lemma normalize_frame_error:
  "normalize_frame b df0 = Inl e \<Longrightarrow> e = AttributeError \<or> e = TypeError"
  by (auto simp: normalize_frame_def Let_def split: if_splits)

text \<open>The ways in which \<open>process_dataframe\<close> ends, phase by phase.\<close>

lemma process_dataframe_outcome:
  assumes run: "process_dataframe b st df0 = (st', res)"
  shows "(\<exists>e. normalize_frame b df0 = Inl e \<and> st' = st \<and> res = Inl e)
    \<or> (\<exists>df. normalize_frame b df0 = Inr df
          \<and> st' = st \<and> res = Inl HSCodeInsertError \<and> new_hs_objects b st df \<noteq> [])
    \<or> (\<exists>df st1. normalize_frame b df0 = Inr df
          \<and> trade_table st1 = trade_table st
          \<and> hs_table st1 = hs_table st @ new_hs_objects b st df
          \<and> ((\<exists>e. (e = ValueError \<or> e = KeyError) \<and> st' = st1 \<and> res = Inl e)
             \<or> (st' = st1 \<and> res = Inl TradeInsertError)
             \<or> (\<exists>objs. build_trades b
                     (dict_of (hs_filter_in (map (\<lambda>r. to_text b (c_hs_code r)) df) st1)) df
                   = Inr objs
                 \<and> trade_bulk_create b objs st1 = Inr st' \<and> res = Inr (length objs))))"
proof (cases "normalize_frame b df0")
  case (Inl e)
  with run show ?thesis by (simp add: process_dataframe_def)
next
  case (Inr df)
  note norm = this
  let ?new = "new_hs_objects b st df"
  show ?thesis
  proof (cases "if ?new \<noteq> [] then hs_bulk_create b ?new st else Inr st")
    case (Inl e)
    then have "e = HSCodeInsertError" by (rule catalog_step_error)
    moreover from Inl have "?new \<noteq> []" by (auto split: if_splits)
    moreover from run norm Inl have "st' = st" "res = Inl e"
      by (simp_all add: process_dataframe_def Let_def)
    ultimately show ?thesis using norm by blast
  next
    case (Inr st1)
    note cat = this
    then have tabs: "trade_table st1 = trade_table st" "hs_table st1 = hs_table st @ ?new"
      using catalog_step_tables by blast+
    let ?all = "dict_of (hs_filter_in (map (\<lambda>r. to_text b (c_hs_code r)) df) st1)"
    show ?thesis
    proof (cases "build_trades b ?all df")
      case (Inl e)
      then have "e = ValueError \<or> e = KeyError" by (rule build_trades_error)
      moreover from run norm cat Inl have "st' = st1" "res = Inl e"
        by (simp_all add: process_dataframe_def Let_def)
      ultimately show ?thesis using norm tabs by blast
    next
      case (Inr objs)
      note built = this
      show ?thesis
      proof (cases "trade_bulk_create b objs st1")
        case (Inl e)
        then have "e = TradeInsertError" by (rule trade_bulk_create_error)
        moreover from run norm cat built Inl have "st' = st1" "res = Inl e"
          by (simp_all add: process_dataframe_def Let_def)
        ultimately show ?thesis using norm tabs by blast
      next
        case (Inr st2)
        with run norm cat built have "st' = st2" "res = Inr (length objs)"
          by (simp_all add: process_dataframe_def Let_def)
        with Inr built norm tabs show ?thesis by blast
      qed
    qed
  qed
qed

text \<open>
  C3. Whatever the upload: when \<open>process_dataframe\<close> fails while it builds the trade
  records (ValueError, KeyError) or while it inserts them (TradeInsertError), the table of
  trade records is as before and the catalog holds, after the entries it had, the entries
  created earlier in the same call; when it fails before, both tables are as before; when it
  succeeds it returns the number of trade records that it appended.
\<close>

theorem batch_insert_is_atomic:
  assumes run: "process_dataframe b st df0 = (st', res)"
  shows "case res of
           Inr n \<Rightarrow>
             (\<exists>new. trade_table st' = trade_table st @ new \<and> length new = n)
         | Inl e \<Rightarrow>
             trade_table st' = trade_table st
             \<and> (if e = ValueError \<or> e = KeyError \<or> e = TradeInsertError
                then \<exists>df. normalize_frame b df0 = Inr df
                        \<and> hs_table st' = hs_table st @ new_hs_objects b st df
                else hs_table st' = hs_table st)"
proof -
  from process_dataframe_outcome [OF run]
  consider
    (norm) e where "normalize_frame b df0 = Inl e" "st' = st" "res = Inl e"
  | (cat) "st' = st" "res = Inl HSCodeInsertError"
  | (later) df st1 where "normalize_frame b df0 = Inr df"
      "trade_table st1 = trade_table st"
      "hs_table st1 = hs_table st @ new_hs_objects b st df"
      "(\<exists>e. (e = ValueError \<or> e = KeyError) \<and> st' = st1 \<and> res = Inl e)
       \<or> (st' = st1 \<and> res = Inl TradeInsertError)
       \<or> (\<exists>objs. build_trades b
               (dict_of (hs_filter_in (map (\<lambda>r. to_text b (c_hs_code r)) df) st1)) df
             = Inr objs
           \<and> trade_bulk_create b objs st1 = Inr st' \<and> res = Inr (length objs))"
    by blast
  then show ?thesis
  proof cases
    case norm
    from norm(1) have "e = AttributeError \<or> e = TypeError" by (rule normalize_frame_error)
    with norm show ?thesis by auto
  next
    case cat
    then show ?thesis by simp
  next
    case later
    from later(4) consider
      (build) e where "e = ValueError \<or> e = KeyError" "st' = st1" "res = Inl e"
    | (refused) "st' = st1" "res = Inl TradeInsertError"
    | (stored) objs where "trade_bulk_create b objs st1 = Inr st'" "res = Inr (length objs)"
      by blast
    then show ?thesis
    proof cases
      case build
      with later(1-3) show ?thesis by auto
    next
      case refused
      with later(1-3) show ?thesis by auto
    next
      case stored
      from trade_bulk_create_tables [OF stored(1)] later(2)
      have "trade_table st' = trade_table st @ map (\<lambda>obj. the (db_row b obj)) objs" by simp
      with stored(2) show ?thesis by simp
    qed
  qed
qed

theorem batch_insert_is_atomic_witness:
  "process_dataframe sample_backend empty_store incomplete_frame
     = (catalog_only_store, Inl TradeInsertError)
   \<and> trade_table catalog_only_store = trade_table empty_store
   \<and> hs_table catalog_only_store = [horses]"
proof -
  have run: "process_dataframe sample_backend empty_store incomplete_frame
     = (catalog_only_store, Inl TradeInsertError)"
    by code_simp
  from batch_insert_is_atomic [OF run]
  have "trade_table catalog_only_store = trade_table empty_store" by simp
  moreover have "hs_table catalog_only_store = [horses]"
    by (simp add: catalog_only_store_def)
  ultimately show ?thesis using run by blast
qed

lemma month_in_range_fillna: "month_in_range (fillna_cell c) = month_in_range c"
  by (cases c) auto

lemma py_int_cell_fillna:
  "month_in_range c \<Longrightarrow> py_int_cell b (fillna_cell c) = py_int_cell b c"
  by (cases c) auto

lemma c_month_normalized:
  "c_month (normalize_trade_type b (normalize_hs_code b (fillna r))) = fillna_cell (c_month r)"
  by (simp add: normalize_trade_type_def normalize_hs_code_def fillna_def)

lemma normalize_frame_rows:
  assumes "normalize_frame b df0 = Inr df"
  shows "df = map (\<lambda>r. normalize_trade_type b (normalize_hs_code b (fillna r)))
                (filter (\<lambda>r. month_in_range (c_month r)) (rows df0))"
proof -
  from assms have "df = filter (\<lambda>r. month_in_range (c_month r))
      (map (normalize_trade_type b) (map (normalize_hs_code b) (map fillna (rows df0))))"
    by (auto simp: normalize_frame_def Let_def split: if_splits)
  then show ?thesis
    by (simp add: filter_map comp_def c_month_normalized month_in_range_fillna)
qed

lemma stored_months:
  assumes built: "build_trades b all_hs df = Inr objs"
    and ok: "list_all (\<lambda>obj. db_row b obj \<noteq> None) objs"
  shows "list_all2 (\<lambda>r t. py_int_cell b (c_month r) = Inr (month t)) df
           (map (\<lambda>obj. the (db_row b obj)) objs)"
proof -
  from built have rel: "list_all2 (\<lambda>r obj. make_trade b all_hs r = Inr obj) df objs"
    by (rule build_trades_rel)
  have step: "py_int_cell b (c_month r) = Inr (month (the (db_row b obj)))"
    if "make_trade b all_hs r = Inr obj" and "obj \<in> set objs" for r obj
  proof -
    from ok that(2) obtain t where t: "db_row b obj = Some t"
      by (auto simp: list_all_iff)
    from db_row_month [OF t] have "month t = o_month obj" by simp
    with make_trade_month [OF that(1)] t show ?thesis by simp
  qed
  show ?thesis
    unfolding list_all2_map2
    by (rule list.rel_mono_strong [OF rel]) (rule step)
qed


lemma list_all2_right_member:
  "list_all2 P xs ys \<Longrightarrow> y \<in> set ys \<Longrightarrow> \<exists>x\<in>set xs. P x y"
  by (induction rule: list_all2_induct) auto

lemma process_dataframe_failure:
  assumes run: "process_dataframe b st df0 = (st', Inl e)"
  shows "trade_table st' = trade_table st"
  using process_dataframe_outcome [OF run]
  by (elim disjE exE conjE) simp_all

lemma process_dataframe_success:
  assumes run: "process_dataframe b st df0 = (st', Inr n)"
  shows "\<exists>df st1 objs. normalize_frame b df0 = Inr df
     \<and> trade_table st1 = trade_table st
     \<and> build_trades b (dict_of (hs_filter_in (map (\<lambda>r. to_text b (c_hs_code r)) df) st1)) df
         = Inr objs
     \<and> trade_bulk_create b objs st1 = Inr st'"
  using process_dataframe_outcome [OF run]
  apply (elim disjE exE conjE)
      apply simp_all
  apply blast
  done

lemma success_months:
  assumes run: "process_dataframe b st df0 = (st', Inr n)"
  shows "\<exists>new. trade_table st' = trade_table st @ new
     \<and> list_all2 (\<lambda>r t. py_int_cell b (c_month r) = Inr (month t))
         (filter (\<lambda>r. month_in_range (c_month r)) (rows df0)) new"
proof -
  from process_dataframe_success [OF run]
  obtain df st1 objs where norm: "normalize_frame b df0 = Inr df"
    and same: "trade_table st1 = trade_table st"
    and built: "build_trades b
             (dict_of (hs_filter_in (map (\<lambda>r. to_text b (c_hs_code r)) df) st1)) df
           = Inr objs"
    and stored: "trade_bulk_create b objs st1 = Inr st'"
    by blast
  let ?kept = "filter (\<lambda>r. month_in_range (c_month r)) (rows df0)"
  let ?new = "map (\<lambda>obj. the (db_row b obj)) objs"
  from trade_bulk_create_tables [OF stored] same
  have tab: "trade_table st' = trade_table st @ ?new"
    and ok: "list_all (\<lambda>obj. db_row b obj \<noteq> None) objs" by simp_all
  from stored_months [OF built ok]
  have "list_all2 (\<lambda>r t. py_int_cell b (c_month r) = Inr (month t)) df ?new" .
  then have "list_all2 (\<lambda>r t. py_int_cell b (fillna_cell (c_month r)) = Inr (month t))
      ?kept ?new"
    unfolding normalize_frame_rows [OF norm] list_all2_map1 c_month_normalized .
  then have rel: "list_all2 (\<lambda>r t. py_int_cell b (c_month r) = Inr (month t)) ?kept ?new"
    by (rule list.rel_mono_strong) (simp add: py_int_cell_fillna)
  from tab rel show ?thesis by blast
qed

lemma kept_months_in_range:
  assumes rel: "list_all2 (\<lambda>r t. py_int_cell b (c_month r) = Inr (month t))
         (filter (\<lambda>r. month_in_range (c_month r)) rs) new"
    and t: "t \<in> set new"
  shows "1 \<le> month t \<and> month t \<le> 12"
proof -
  from list_all2_right_member [OF rel t]
  obtain r where "r \<in> set (filter (\<lambda>r. month_in_range (c_month r)) rs)"
    and conv: "py_int_cell b (c_month r) = Inr (month t)" by blast
  then have "month_in_range (c_month r)" by simp
  then show ?thesis using conv by (rule month_in_range_int)
qed

text \<open>
  C6. Whatever the upload, the trade records that \<open>process_dataframe\<close> appends all have a
  month from 1 to 12. When it succeeds, the appended records are, one for one and in order,
  the rows of the file whose month lies in [1,12], each stored with the integer of its month:
  a row with a month outside [1,12] is stored nowhere, and no row with a month inside is
  dropped. When it fails, nothing is appended. Hence a table whose records all have a month
  from 1 to 12 keeps that property.
\<close>

theorem month_filter_on_upload:
  assumes run: "process_dataframe b st df0 = (st', res)"
  shows "\<exists>new. trade_table st' = trade_table st @ new
           \<and> (\<forall>t\<in>set new. 1 \<le> month t \<and> month t \<le> 12)
           \<and> (case res of
                 Inl e \<Rightarrow> new = []
               | Inr n \<Rightarrow>
                   list_all2 (\<lambda>r t. py_int_cell b (c_month r) = Inr (month t))
                     (filter (\<lambda>r. month_in_range (c_month r)) (rows df0)) new)
           \<and> ((\<forall>t\<in>set (trade_table st). 1 \<le> month t \<and> month t \<le> 12)
                \<longrightarrow> (\<forall>t\<in>set (trade_table st'). 1 \<le> month t \<and> month t \<le> 12))"
proof (cases res)
  case (Inl e)
  with run have "trade_table st' = trade_table st"
    using process_dataframe_failure by blast
  then have "trade_table st' = trade_table st @ []
      \<and> (\<forall>t\<in>set []. 1 \<le> month t \<and> month t \<le> 12)
      \<and> [] = ([] :: TradeData list)
      \<and> ((\<forall>t\<in>set (trade_table st). 1 \<le> month t \<and> month t \<le> 12)
                \<longrightarrow> (\<forall>t\<in>set (trade_table st'). 1 \<le> month t \<and> month t \<le> 12))"
    by simp
  then show ?thesis unfolding Inl sum.case by (rule exI [of _ "[]"])
next
  case (Inr n)
  with run have "process_dataframe b st df0 = (st', Inr n)" by simp
  from success_months [OF this] obtain new
    where tab: "trade_table st' = trade_table st @ new"
      and rel: "list_all2 (\<lambda>r t. py_int_cell b (c_month r) = Inr (month t))
         (filter (\<lambda>r. month_in_range (c_month r)) (rows df0)) new"
    by blast
  have range: "\<forall>t\<in>set new. 1 \<le> month t \<and> month t \<le> 12"
    using kept_months_in_range [OF rel] by blast
  have inv: "(\<forall>t\<in>set (trade_table st). 1 \<le> month t \<and> month t \<le> 12)
                \<longrightarrow> (\<forall>t\<in>set (trade_table st'). 1 \<le> month t \<and> month t \<le> 12)"
    unfolding tab using range by auto
  from tab range rel inv show ?thesis unfolding Inr sum.case by blast
qed

theorem month_filter_on_upload_witness:
  "process_dataframe sample_backend empty_store months_frame = (december_store, Inr 1)
   \<and> filter (\<lambda>r. month_in_range (c_month r)) (rows months_frame)
       = [sample_row (CInt 12) ''IMPORT'' ''0101'' ''Horses'' ''KE'' (CInt 100)]
   \<and> map month (trade_table december_store) = [12]"
proof -
  have run: "process_dataframe sample_backend empty_store months_frame = (december_store, Inr 1)"
    by code_simp
  have kept: "filter (\<lambda>r. month_in_range (c_month r)) (rows months_frame)
       = [sample_row (CInt 12) ''IMPORT'' ''0101'' ''Horses'' ''KE'' (CInt 100)]"
    by code_simp
  have m12: "c_month (sample_row (CInt 12) ''IMPORT'' ''0101'' ''Horses'' ''KE'' (CInt 100)) = CInt 12"
    by (simp add: sample_row_def)
  from month_filter_on_upload [OF run] obtain new where
    new: "trade_table december_store = trade_table empty_store @ new"
    and rel: "list_all2 (\<lambda>r t. py_int_cell sample_backend (c_month r) = Inr (month t))
        (filter (\<lambda>r. month_in_range (c_month r)) (rows months_frame)) new"
    unfolding sum.case by blast
  from rel obtain t where t: "new = [t]" and m: "month t = 12"
    unfolding kept by (auto simp: list_all2_Cons1 m12)
  from new t m have "map month (trade_table december_store) = [12]"
    by (simp add: empty_store_def)
  with run kept show ?thesis by blast
qed

text \<open>
  C2. The claim: when a code that the catalog does not have occurs in several rows of a
  batch, also with different descriptions, exactly one entry is created for it, with the
  description of its first occurrence. Evaluated on an upload of two rows with the code 0101
  and the descriptions \<open>Horses\<close> and \<open>Live horses\<close> into an empty store: the rows differ as
  pairs of code and description, so two entries with the code 0101 are handed to
  \<open>bulk_create\<close>, the insert fails on the unique code, and the upload ends with that error,
  no entry and no trade record.
\<close>

theorem two_descriptions_fail_the_upload:
  "process_dataframe sample_backend empty_store two_descriptions_frame
     = (empty_store, Inl HSCodeInsertError)
   \<and> normalize_frame sample_backend two_descriptions_frame
     = Inr (rows two_descriptions_frame)
   \<and> new_hs_objects sample_backend empty_store (rows two_descriptions_frame)
     = [new_HSCode ''0101'' ''Horses'', new_HSCode ''0101'' ''Live horses'']"
  by code_simp

section \<open>The decoder\<close>

lemma read_csv_latin1: "read_csv b Latin1 raw \<noteq> Inl UnicodeDecodeError"
  by (simp add: read_csv_def split: sum.splits)

lemma read_csv_safely_eq:
  "read_csv_safely b raw =
     (case read_csv b UTF8 raw of
        Inl UnicodeDecodeError \<Rightarrow> read_csv b Latin1 raw
      | r \<Rightarrow> r)"
proof (cases "read_csv b Latin1 raw")
  case (Inl e)
  with read_csv_latin1 [of b raw] have "e \<noteq> UnicodeDecodeError" by auto
  with Inl show ?thesis
    by (cases e) (simp_all add: read_csv_safely_def split: sum.splits error.splits)
next
  case (Inr df)
  then show ?thesis by (simp add: read_csv_safely_def split: sum.splits error.splits)
qed

text \<open>
  C9, as the code has it. The decoder tries UTF-8 first and returns what that attempt gives
  unless the bytes are not UTF-8; then it tries latin1, which decodes every byte stream (each
  byte to the code point of its value), and returns what that attempt gives. The third
  encoding, cp1252, is never reached, and no input makes the decoder fail with a decode
  error; an error of the parser is passed on.
\<close>

theorem decoder_falls_back_to_latin1:
  "read_csv_safely b raw =
     (case utf8_decode (map unat raw) of
        Some text \<Rightarrow>
          (case csv_parse b text of Inl m \<Rightarrow> Inl (ParserError m) | Inr df \<Rightarrow> Inr df)
      | None \<Rightarrow>
          (case csv_parse b (map unat raw) of Inl m \<Rightarrow> Inl (ParserError m) | Inr df \<Rightarrow> Inr df))
   \<and> read_csv_safely b raw \<noteq> Inl UnicodeDecodeError"
  unfolding read_csv_safely_eq
  by (simp add: read_csv_def split: option.splits sum.splits)

text \<open>
  C9 as stated has an input on which no encoding of the chain succeeds, so that the decoder
  fails with a decode error. The byte 0x81 alone is neither UTF-8 nor cp1252, and still, like
  every other input, it is decoded: no backend and no input give a decode error.
\<close>

theorem no_decode_error_counterexample:
  "decode UTF8 [0x81] = None \<and> decode CP1252 [0x81] = None
   \<and> decode Latin1 [0x81] = Some [129]
   \<and> \<not> (\<exists>b raw. read_csv_safely b raw = Inl UnicodeDecodeError)"
proof -
  have "read_csv_safely b raw \<noteq> Inl UnicodeDecodeError" for b raw
    unfolding read_csv_safely_eq
    by (simp add: read_csv_def split: option.splits sum.splits)
  then have none: "\<not> (\<exists>b raw. read_csv_safely b raw = Inl UnicodeDecodeError)" by blast
  have "decode UTF8 [0x81] = None" and "decode CP1252 [0x81] = None"
    and "decode Latin1 [0x81] = Some [129]"
    by code_simp+
  with none show ?thesis by blast
qed

section \<open>The required columns\<close>

text \<open>
  C8, as the code has it. When the form is valid and the file is read into a frame that lacks
  one of the eight required columns, \<open>post\<close> answers with the fixed error message
  \<open>Missing required columns in file.\<close> and leaves the store as it was.
\<close>

theorem missing_columns_refused:
  assumes "form_valid up"
    and "load_dataframe b up = Some (Inr df)"
    and "\<not> set required_columns \<subseteq> set (columns df)"
  shows "post b st up = (st, MessageError ''Missing required columns in file.'')"
  using assms by (simp add: post_def)

theorem missing_columns_refused_witness:
  "form_valid (csv_upload ''month,trade_type,hs_code,country,quantity,description,value_usd'')
   \<and> load_dataframe sample_backend
        (csv_upload ''month,trade_type,hs_code,country,quantity,description,value_usd'')
      = Some (Inr \<lparr> columns = [''month'', ''trade_type'', ''hs_code'', ''country'', ''quantity'',
                                ''description'', ''value_usd''], rows = [] \<rparr>)
   \<and> post sample_backend balance_store
        (csv_upload ''month,trade_type,hs_code,country,quantity,description,value_usd'')
      = (balance_store, MessageError ''Missing required columns in file.'')"
proof -
  let ?up = "csv_upload ''month,trade_type,hs_code,country,quantity,description,value_usd''"
  let ?df = "\<lparr> columns = [''month'', ''trade_type'', ''hs_code'', ''country'', ''quantity'',
                                ''description'', ''value_usd''], rows = [] \<rparr>"
  have v: "form_valid ?up" by (simp add: csv_upload_def)
  have l: "load_dataframe sample_backend ?up = Some (Inr ?df)" by code_simp
  have m: "\<not> set required_columns \<subseteq> set (columns ?df)" by code_simp
  from missing_columns_refused [OF v l m, of balance_store] v l show ?thesis by blast
qed

text \<open>
  C8 as stated has the error name the missing columns. A file without the column \<open>year\<close>
  and a file without the column \<open>value_usd\<close> get the same message, which contains neither
  name.
\<close>

theorem missing_columns_message_counterexample:
  "post sample_backend empty_store
        (csv_upload ''month,trade_type,hs_code,country,quantity,description,value_usd'')
      = (empty_store, MessageError ''Missing required columns in file.'')
   \<and> post sample_backend empty_store
        (csv_upload ''year,month,trade_type,hs_code,country,quantity,description'')
      = (empty_store, MessageError ''Missing required columns in file.'')
   \<and> \<not> contains ''Missing required columns in file.'' ''year''
   \<and> \<not> contains ''Missing required columns in file.'' ''value_usd''"
  by code_simp

end
